theory Spec2Isabelle
  imports Main
begin

section \<open>Text\<close>

text \<open>
  A Python \<open>str\<close> is a sequence of Unicode code points, and every pattern of
  \<open>tajweed.py\<close> is matched code point by code point (the Arabic letters and the
  combining marks are separate code points). A text is therefore a list of code points.
\<close>

type_synonym str = "nat list"

definition asc :: "string \<Rightarrow> str" where
  "asc cs = map of_char cs"

fun nat_digits :: "nat \<Rightarrow> str" where
  "nat_digits n = (if n < 10 then [48 + n] else nat_digits (n div 10) @ [48 + n mod 10])"

declare nat_digits.simps [simp del]

definition py_str :: "int \<Rightarrow> str" where
  "py_str k = (if k < 0 then 45 # nat_digits (nat (- k)) else nat_digits (nat k))"

fun py_join :: "str \<Rightarrow> str list \<Rightarrow> str" where
  "py_join sep [] = []"
| "py_join sep [x] = x"
| "py_join sep (x # y # ys) = x @ sep @ py_join sep (y # ys)"

text \<open>The slice \<open>s[-2:]\<close>: the last two code points, or all of \<open>s\<close> when it is shorter.\<close>

definition last2 :: "str \<Rightarrow> str" where
  "last2 s = drop (length s - 2) s"

section \<open>The patterns of the rule tables: the part of Python's \<open>re\<close> they use\<close>

text \<open>
  The rule tables use literals, \<open>.\<close>, character sets, \<open>[^c]\<close>, \<open>^\<close>, \<open>$\<close>, concatenation,
  alternation, the greedy \<open>?\<close>, capturing groups, look-ahead (positive and negative) and
  fixed-width look-behind. A pattern is kept as its syntax tree:
  \<open>Str w\<close> is a run of literals, \<open>Grp k r\<close> the capturing group number \<open>k\<close>
  (a non-capturing group \<open>(?:r)\<close> is just \<open>r\<close>).
\<close>

datatype regex =
    Str str
  | NotLit nat
  | Dot
  | In "nat list"
  | Bol
  | Eol
  | Seq regex regex
  | Alt regex regex
  | Opt regex
  | Grp nat regex
  | Ahead regex
  | NotAhead regex
  | Behind regex
  | NotBehind regex

type_synonym groups = "nat \<rightharpoonup> nat \<times> nat"

text \<open>The width of a look-behind body (the compiler of \<open>re\<close> demands a fixed width and
  steps back by it).\<close>

fun width :: "regex \<Rightarrow> nat" where
  "width (Str w) = length w"
| "width (NotLit c) = 1"
| "width Dot = 1"
| "width (In cs) = 1"
| "width Bol = 0"
| "width Eol = 0"
| "width (Seq a b) = width a + width b"
| "width (Alt a b) = min (width a) (width b)"
| "width (Opt a) = 0"
| "width (Grp k a) = width a"
| "width (Ahead a) = 0"
| "width (NotAhead a) = 0"
| "width (Behind a) = 0"
| "width (NotBehind a) = 0"

text \<open>
  \<open>re\<close> is a backtracking matcher: \<open>ms r s p g\<close> lists, in the order in which the
  matcher tries them, the ways in which \<open>r\<close> matches \<open>s\<close> from position \<open>p\<close>,
  each as the end position and the groups captured. \<open>$\<close> matches at the end of the
  text and before a final line feed (code point 10); \<open>.\<close> matches all but a line feed.
\<close>

fun ms :: "regex \<Rightarrow> str \<Rightarrow> nat \<Rightarrow> groups \<Rightarrow> (nat \<times> groups) list" where
  "ms (Str w) s p g = (if take (length w) (drop p s) = w then [(p + length w, g)] else [])"
| "ms (NotLit c) s p g = (if p < length s \<and> s ! p \<noteq> c then [(Suc p, g)] else [])"
| "ms Dot s p g = (if p < length s \<and> s ! p \<noteq> 10 then [(Suc p, g)] else [])"
| "ms (In cs) s p g = (if p < length s \<and> s ! p \<in> set cs then [(Suc p, g)] else [])"
| "ms Bol s p g = (if p = 0 then [(p, g)] else [])"
| "ms Eol s p g =
     (if p = length s \<or> (Suc p = length s \<and> s ! p = 10) then [(p, g)] else [])"
| "ms (Seq a b) s p g = concat (map (\<lambda>(q, h). ms b s q h) (ms a s p g))"
| "ms (Alt a b) s p g = ms a s p g @ ms b s p g"
| "ms (Opt a) s p g = ms a s p g @ [(p, g)]"
| "ms (Grp k a) s p g = map (\<lambda>(q, h). (q, h(k \<mapsto> (p, q)))) (ms a s p g)"
| "ms (Ahead a) s p g = (case ms a s p g of [] \<Rightarrow> [] | (q, h) # _ \<Rightarrow> [(p, h)])"
| "ms (NotAhead a) s p g = (if ms a s p g = [] then [(p, g)] else [])"
| "ms (Behind a) s p g =
     (if width a \<le> p
      then (case filter (\<lambda>(q, h). q = p) (ms a s (p - width a) g) of
              [] \<Rightarrow> [] | (q, h) # _ \<Rightarrow> [(p, h)])
      else [])"
| "ms (NotBehind a) s p g =
     (if width a \<le> p \<and> filter (\<lambda>(q, h). q = p) (ms a s (p - width a) g) \<noteq> []
      then [] else [(p, g)])"

text \<open>
  One attempt at start position \<open>b\<close>: the first way that the matcher accepts. After an
  empty match, \<open>sub\<close> sets \<open>must_advance\<close>: the attempt at that same position must not
  end where it starts.
\<close>

definition match_at :: "regex \<Rightarrow> str \<Rightarrow> nat \<Rightarrow> bool \<Rightarrow> (nat \<times> groups) option" where
  "match_at r s b must_advance =
     (case filter (\<lambda>(e, g). \<not> (must_advance \<and> e = b)) (ms r s b Map.empty) of
        [] \<Rightarrow> None
      | m # _ \<Rightarrow> Some m)"

text \<open>The search tries the start positions \<open>bs\<close> from left to right; only the first
  one is under \<open>must_advance\<close>.\<close>

fun search_in :: "regex \<Rightarrow> str \<Rightarrow> nat list \<Rightarrow> bool \<Rightarrow> (nat \<times> nat \<times> groups) option" where
  "search_in r s [] must_advance = None"
| "search_in r s (b # bs) must_advance =
     (case match_at r s b must_advance of
        Some (e, g) \<Rightarrow> Some (b, e, g)
      | None \<Rightarrow> search_in r s bs False)"

definition search_from :: "regex \<Rightarrow> str \<Rightarrow> nat \<Rightarrow> bool \<Rightarrow> (nat \<times> nat \<times> groups) option" where
  "search_from r s pos must_advance = search_in r s [pos..<Suc (length s)] must_advance"

text \<open>\<open>re.search(r, s)\<close>, used by the code for its truth value only.\<close>

definition re_search :: "regex \<Rightarrow> str \<Rightarrow> bool" where
  "re_search r s = (search_from r s 0 False \<noteq> None)"

text \<open>A replacement template: literal text and group references \<open>\<bsol>1\<close>, \<open>\<bsol>2\<close>. A group
  that took no part in the match expands to the empty text.\<close>

datatype titem = TStr str | TGrp nat

type_synonym template = "titem list"

fun expand_item :: "str \<Rightarrow> groups \<Rightarrow> titem \<Rightarrow> str" where
  "expand_item s g (TStr w) = w"
| "expand_item s g (TGrp k) =
     (case g k of None \<Rightarrow> [] | Some (b, e) \<Rightarrow> take (e - b) (drop b s))"

definition expand :: "template \<Rightarrow> str \<Rightarrow> groups \<Rightarrow> str" where
  "expand t s g = concat (map (expand_item s g) t)"

text \<open>Where a match can end: never before its start, never beyond the text.\<close>

lemma in_first_caseD:
  "(q, h) \<in> set (case xs of [] \<Rightarrow> [] | (q', h') # _ \<Rightarrow> [(p, h')]) \<Longrightarrow> q = p"
  by (cases xs) auto

lemma ms_bounds:
  "(q, h) \<in> set (ms r s p g) \<Longrightarrow> p \<le> length s \<Longrightarrow> p \<le> q \<and> q \<le> length s"
proof (induction r arbitrary: p q g h)
  case (Str w)
  then have "take (length w) (drop p s) = w" and "q = p + length w"
    by (auto split: if_splits)
  from arg_cong[OF this(1), of length] have "length w \<le> length s - p"
    by simp
  with Str \<open>q = p + length w\<close> show ?case by simp
next
  case (Seq a b)
  then obtain q' h' where 1: "(q', h') \<in> set (ms a s p g)" and 2: "(q, h) \<in> set (ms b s q' h')"
    by auto
  from Seq.IH(1)[OF 1 Seq.prems(2)] have "p \<le> q'" "q' \<le> length s" by simp_all
  with Seq.IH(2)[OF 2] show ?case by simp
next
  case (Alt a b)
  from Alt.prems(1) have "(q, h) \<in> set (ms a s p g) \<or> (q, h) \<in> set (ms b s p g)" by simp
  with Alt.IH Alt.prems(2) show ?case by blast
next
  case (Opt a)
  from Opt.prems(1) have "(q, h) \<in> set (ms a s p g) \<or> q = p" by auto
  with Opt.IH Opt.prems(2) show ?case by auto
next
  case (Grp k a)
  from Grp.prems(1) obtain h' where "(q, h') \<in> set (ms a s p g)" by auto
  with Grp.IH Grp.prems(2) show ?case by blast
next
  case (Ahead a)
  from Ahead.prems(1) have "q = p" by (auto dest: in_first_caseD)
  with Ahead.prems(2) show ?case by simp
next
  case (NotAhead a)
  from NotAhead.prems(1) have "q = p" by (simp split: if_splits)
  with NotAhead.prems(2) show ?case by simp
next
  case (Behind a)
  have "q = p"
  proof (cases "width a \<le> p")
    case True
    with Behind.prems(1) show ?thesis by (auto dest: in_first_caseD)
  next
    case False
    with Behind.prems(1) show ?thesis by simp
  qed
  with Behind.prems(2) show ?case by simp
next
  case (NotBehind a)
  have "q = p"
  proof (cases "width a \<le> p \<and> filter (\<lambda>(q, h). q = p) (ms a s (p - width a) g) \<noteq> []")
    case True
    with NotBehind.prems(1) show ?thesis by simp
  next
    case False
    with NotBehind.prems(1) show ?thesis by auto
  qed
  with NotBehind.prems(2) show ?case by simp
qed (simp_all split: if_splits)

lemma match_at_Some:
  assumes "match_at r s b adv = Some (e, g)"
  shows "(e, g) \<in> set (ms r s b Map.empty) \<and> \<not> (adv \<and> e = b)"
proof -
  let ?xs = "filter (\<lambda>(e, g). \<not> (adv \<and> e = b)) (ms r s b Map.empty)"
  from assms obtain ys where "?xs = (e, g) # ys"
    unfolding match_at_def by (cases ?xs) simp_all
  then have "(e, g) \<in> set ?xs" by simp
  then show ?thesis by simp
qed

lemma search_in_Some:
  "search_in r s bs adv = Some (b, e, g) \<Longrightarrow> distinct bs \<Longrightarrow>
     b \<in> set bs \<and> (e, g) \<in> set (ms r s b Map.empty) \<and> (adv \<and> b = hd bs \<longrightarrow> e \<noteq> b)"
proof (induction bs arbitrary: adv)
  case Nil
  then show ?case by simp
next
  case (Cons c cs)
  show ?case
  proof (cases "match_at r s c adv")
    case None
    with Cons.prems(1) have "search_in r s cs False = Some (b, e, g)" by simp
    moreover from Cons.prems(2) have "distinct cs" "c \<notin> set cs" by simp_all
    ultimately have "b \<in> set cs" "(e, g) \<in> set (ms r s b Map.empty)" "b \<noteq> c"
      using Cons.IH[of False] by auto
    then show ?thesis by simp
  next
    case (Some m)
    obtain e' g' where m: "m = (e', g')" by (cases m)
    with Some Cons.prems(1) have eq: "b = c" "e' = e" "g' = g" by simp_all
    from match_at_Some[of r s c adv e' g'] Some m
    have "(e', g') \<in> set (ms r s c Map.empty)" "\<not> (adv \<and> e' = c)" by simp_all
    with eq show ?thesis by simp
  qed
qed

lemma search_from_Some:
  assumes "search_from r s pos adv = Some (b, e, g)"
  shows "pos \<le> b \<and> b \<le> e \<and> e \<le> length s \<and> (adv \<and> b = pos \<longrightarrow> pos < e)"
proof -
  have d: "distinct [pos..<Suc (length s)]" by simp
  note * = search_in_Some[OF assms[unfolded search_from_def] d]
  from * have "b \<in> set [pos..<Suc (length s)]" by (rule conjunct1)
  then have b: "pos \<le> b" "b \<le> length s"
    by (simp_all only: set_upt atLeastLessThan_iff less_Suc_eq_le)
  from * have m: "(e, g) \<in> set (ms r s b Map.empty)" by blast
  from ms_bounds[OF m b(2)] have e: "b \<le> e" "e \<le> length s" by simp_all
  from b have "hd [pos..<Suc (length s)] = pos" by (simp add: upt_rec)
  moreover from * have "adv \<and> b = hd [pos..<Suc (length s)] \<longrightarrow> e \<noteq> b" by blast
  ultimately have "adv \<and> b = pos \<longrightarrow> e \<noteq> b" by (simp only:)
  with e(1) have "adv \<and> b = pos \<longrightarrow> pos < e" by (cases "e = b") simp_all
  with b(1) e show ?thesis by blast
qed

text \<open>
  \<open>re.subn\<close>: the loop of \<open>pattern_subx\<close>. Each round searches from the end of the
  last match, copies the text before the match, expands the template, and after an empty
  match asks the next search to advance. The facts above are what its termination needs.
\<close>

function subn_from :: "regex \<Rightarrow> template \<Rightarrow> str \<Rightarrow> nat \<Rightarrow> bool \<Rightarrow> str \<times> nat" where
  "subn_from r repl s pos must_advance =
     (case search_from r s pos must_advance of
        None \<Rightarrow> (drop pos s, 0)
      | Some (b, e, g) \<Rightarrow>
          (case subn_from r repl s e (e = b) of
             (rest, n) \<Rightarrow> (take (b - pos) (drop pos s) @ expand repl s g @ rest, Suc n)))"
  by pat_completeness auto
termination
proof (relation "measure (\<lambda>(r, repl, s, pos, adv). 2 * (length s - pos) + (if adv then 0 else 1))", goal_cases)
  case 1
  show ?case by simp
next
  case (2 r repl s pos must_advance x2 b y e g)
  then have "search_from r s pos must_advance = Some (b, e, g)" by simp
  from search_from_Some[OF this]
  have "pos \<le> e" "e \<le> length s" "must_advance \<and> b = pos \<longrightarrow> pos < e" "b \<le> e" "pos \<le> b"
    by simp_all
  then have "2 * (length s - e) + (if e = b then 0 else 1)
               < 2 * (length s - pos) + (if must_advance then 0 else 1)"
    by (cases "e = b"; cases must_advance; cases "b = pos") auto
  then show ?case by simp
qed

declare subn_from.simps [simp del]

definition re_subn :: "regex \<Rightarrow> template \<Rightarrow> str \<Rightarrow> str \<times> nat" where
  "re_subn r repl s = subn_from r repl s 0 False"

definition re_sub :: "regex \<Rightarrow> template \<Rightarrow> str \<Rightarrow> str" where
  "re_sub r repl s = fst (re_subn r repl s)"

section \<open>The data model\<close>

text \<open>
  A token is a text with its index (sura, verse, word). The morphological table
  \<open>qmorf\<close> is a dictionary from the key \<open>"sura,verse,word"\<close> to the record that
  \<open>_qmorf_process\<close> writes for the word.
\<close>

type_synonym index = "int \<times> int \<times> int"

type_synonym token = "str \<times> index"

record morf =
  tok :: str
  pos :: "str list"
  lemas :: "str list"
  roots :: "str list"
  derv :: "str list"

type_synonym qmorf = "str \<rightharpoonup> morf"

text \<open>
  A rule is the tuple
  \<open>(ID_RULE, ((TOK_PRE, TOK_POST), (REPL_PRE, REPL_POST)), (TOK_INSIDE, REPL_INSIDE),
  FILTER_POS, EXCLUDE_INDEXES, EXCLUDE_LEMAS, FORCE_INDEXES, RESTRICT_INDEXES)\<close>.
  In both tables \<open>TOK_PRE\<close>, \<open>TOK_POST\<close> and \<open>REPL_PRE\<close> are set together or are
  all \<open>None\<close>, and so are \<open>TOK_INSIDE\<close> and \<open>REPL_INSIDE\<close>: \<open>boundary\<close> and
  \<open>intra\<close> are \<open>None\<close> where the tuple has \<open>None\<close>s; \<open>REPL_POST\<close> alone may be
  \<open>None\<close> beside a pattern. The empty dictionary \<open>{}\<close> that stands for "no indexes"
  is the empty set.
\<close>

record rule =
  id_rule :: str
  boundary :: "((regex \<times> regex) \<times> (template \<times> template option)) option"
  intra :: "(regex \<times> template) option"
  FILTER_POS :: "str option"
  except_ind :: "index set"
  except_lemas :: "str set"
  force_ind :: "index set"
  restrict_ind :: "index set"

text \<open>The counts: for a rule id, the list of (index, count, is-boundary) entries.
  The caller may pass no counts at all (\<open>counts=None\<close>).\<close>

type_synonym trace = "index \<times> nat \<times> bool"

type_synonym counts = "str \<rightharpoonup> trace list"

type_synonym state = "token list \<times> counts option"

text \<open>
  \<open>apply_rules\<close> raises \<open>KeyError\<close> when \<open>qmorf\<close> has no record for a key, and
  \<open>IndexError\<close> when it reads the last character of an empty root. The token list is
  changed in place, so what was written before the exception stays written: an error
  comes with the state at the time of the raise.
\<close>

datatype error = KeyError str | IndexError

type_synonym result = "(error \<times> state) + state"

definition final_state :: "result \<Rightarrow> state" where
  "final_state res = (case res of Inl (e, st) \<Rightarrow> st | Inr st \<Rightarrow> st)"

section \<open>The engine: \<open>apply_rules\<close>\<close>

definition ind_key :: "index \<Rightarrow> str" where
  "ind_key ind = (case ind of (s, v, w) \<Rightarrow> py_join [44] (map py_str [s, v, w]))"

text \<open>\<open>FILTER_POS and FILTER_POS not in qmorf[ind_key]['pos']\<close>: whether the rule is
  skipped for the part of speech.\<close>

definition pos_filtered :: "qmorf \<Rightarrow> str \<Rightarrow> rule \<Rightarrow> error + bool" where
  "pos_filtered qm key r =
     (case FILTER_POS r of
        None \<Rightarrow> Inr False
      | Some p \<Rightarrow>
          if p = [] then Inr False
          else (case qm key of
                  None \<Rightarrow> Inl (KeyError key)
                | Some m \<Rightarrow> Inr (p \<notin> set (pos m))))"

text \<open>\<open>any(r[-1]=='\<dots>' for r in roots)\<close> with the letter heh (U+0647): it stops at the
  first root that ends in heh, and the last character of an empty root does not exist.\<close>

fun any_last_heh :: "str list \<Rightarrow> error + bool" where
  "any_last_heh [] = Inr False"
| "any_last_heh (r # rs) =
     (if r = [] then Inl IndexError
      else if last r = 0x647 then Inr True
      else any_last_heh rs)"

text \<open>
  The check made for the rules \<open>HU\<close> and \<open>HI\<close> at an index outside \<open>force_ind\<close>:
  the rule is skipped when a root ends in heh, or when the last two characters of a root
  are heh, yeh (U+0647, U+064A), unless the rasm of the word form ends in heh, heh.
\<close>

definition clitic_suppressed :: "qmorf \<Rightarrow> index \<Rightarrow> str \<Rightarrow> str \<Rightarrow> rule \<Rightarrow> error + bool" where
  "clitic_suppressed qm ind key wordform_rasm r =
     (if ind \<notin> force_ind r \<and> (id_rule r = asc ''HU'' \<or> id_rule r = asc ''HI'') then
        (case qm key of
           None \<Rightarrow> Inl (KeyError key)
         | Some m \<Rightarrow>
             (case (if roots m \<noteq> [] then any_last_heh (roots m) else Inr False) of
                Inl e \<Rightarrow> Inl e
              | Inr a \<Rightarrow>
                  if a \<and> last2 wordform_rasm \<noteq> [0x647, 0x647] then Inr True
                  else if list_ex (\<lambda>\<rho>. last2 \<rho> = [0x647, 0x64A]) (roots m)
                          \<and> last2 wordform_rasm \<noteq> [0x647, 0x647] then Inr True
                  else Inr False))
      else Inr False)"

definition record_count :: "counts option \<Rightarrow> str \<Rightarrow> nat \<Rightarrow> trace \<Rightarrow> counts option" where
  "record_count cs rid cnt t =
     (case cs of
        None \<Rightarrow> None
      | Some c \<Rightarrow>
          if cnt \<noteq> 0
          then (case c rid of
                  Some l \<Rightarrow> Some (c(rid \<mapsto> l @ [t]))
                | None \<Rightarrow> Some (c(rid \<mapsto> [t])))
          else Some c)"

text \<open>\<open>not repl_post\<close>: \<open>None\<close> or the empty text.\<close>

definition falsy :: "template option \<Rightarrow> bool" where
  "falsy t = (t = None \<or> t = Some [])"

text \<open>
  The rule between two words. The code builds the patterns \<open>f'{tok_pre}$'\<close> and
  \<open>f'^{tok_post}'\<close>; no \<open>tok_pre\<close> of the tables has an alternation outside a group,
  and every \<open>tok_post\<close> with one is wrapped in \<open>(?:\<dots>)\<close>, so these are the
  concatenations \<open>Seq tok_pre Eol\<close> and \<open>Seq Bol tok_post\<close>.
\<close>

definition apply_boundary :: "nat \<Rightarrow> rule \<Rightarrow> state \<Rightarrow> state" where
  "apply_boundary i r st =
     (case st of (tokens, cs) \<Rightarrow>
        (case boundary r of
           None \<Rightarrow> st
         | Some ((tok_pre, tok_post), (repl_pre, repl_post)) \<Rightarrow>
             if Suc i < length tokens
                \<and> re_search (Seq tok_pre Eol) (fst (tokens ! i))
                \<and> re_search (Seq Bol tok_post) (fst (tokens ! Suc i))
             then
               (case re_subn (Seq tok_pre Eol) repl_pre (fst (tokens ! i)) of
                  (cur_tok_modif, cnt) \<Rightarrow>
                    let cs' = record_count cs (id_rule r) cnt (snd (tokens ! i), cnt, True);
                        tokens' =
                          (if falsy repl_post then tokens
                           else tokens[Suc i :=
                                  (re_sub (Seq Bol tok_post) (the repl_post) (fst (tokens ! Suc i)),
                                   snd (tokens ! Suc i))])
                    in (tokens'[i := (cur_tok_modif, snd (tokens ! i))], cs'))
             else st))"

text \<open>The rule inside a word.\<close>

definition apply_intra :: "nat \<Rightarrow> rule \<Rightarrow> state \<Rightarrow> state" where
  "apply_intra i r st =
     (case st of (tokens, cs) \<Rightarrow>
        (case intra r of
           None \<Rightarrow> st
         | Some (pat, repl) \<Rightarrow>
             (case re_subn pat repl (fst (tokens ! i)) of
                (cur_tok_modif, cnt) \<Rightarrow>
                  (tokens[i := (cur_tok_modif, snd (tokens ! i))],
                   record_count cs (id_rule r) cnt (snd (tokens ! i), cnt, False)))))"

text \<open>The body of the inner loop: one rule at position \<open>i\<close>. Each \<open>continue\<close>
  returns the state as it is.\<close>

definition apply_rule :: "qmorf \<Rightarrow> nat \<Rightarrow> str \<Rightarrow> rule \<Rightarrow> state \<Rightarrow> result" where
  "apply_rule qm i wordform_rasm r st =
     (let ind = snd (fst st ! i); key = ind_key ind in
      if restrict_ind r \<noteq> {} \<and> ind \<notin> restrict_ind r then Inr st
      else if ind \<in> except_ind r then Inr st
      else
        (case pos_filtered qm key r of
           Inl e \<Rightarrow> Inl (e, st)
         | Inr True \<Rightarrow> Inr st
         | Inr False \<Rightarrow>
             (case clitic_suppressed qm ind key wordform_rasm r of
                Inl e \<Rightarrow> Inl (e, st)
              | Inr True \<Rightarrow> Inr st
              | Inr False \<Rightarrow> Inr (apply_intra i r (apply_boundary i r st)))))"

text \<open>The inner loop over the rules, in their order; an exception ends it.\<close>

fun rules_loop :: "qmorf \<Rightarrow> nat \<Rightarrow> str \<Rightarrow> rule list \<Rightarrow> state \<Rightarrow> result" where
  "rules_loop qm i wordform_rasm [] st = Inr st"
| "rules_loop qm i wordform_rasm (r # rs) st =
     (case apply_rule qm i wordform_rasm r st of
        Inl e \<Rightarrow> Inl e
      | Inr st' \<Rightarrow> rules_loop qm i wordform_rasm rs st')"

text \<open>
  One round of the outer loop. \<open>rasm\<close> stands for the \<open>rasm\<close> library, which is not
  part of the repository: \<open>rasm t\<close> is the last field of the first item it yields for
  the text \<open>t\<close>, computed once from the token as it is when the round starts.
\<close>

definition token_step :: "(str \<Rightarrow> str) \<Rightarrow> qmorf \<Rightarrow> rule list \<Rightarrow> nat \<Rightarrow> state \<Rightarrow> result" where
  "token_step rasm qm rules i st = rules_loop qm i (rasm (fst (fst st ! i))) rules st"

fun tokens_loop :: "(str \<Rightarrow> str) \<Rightarrow> qmorf \<Rightarrow> rule list \<Rightarrow> nat list \<Rightarrow> state \<Rightarrow> result" where
  "tokens_loop rasm qm rules [] st = Inr st"
| "tokens_loop rasm qm rules (i # is) st =
     (case token_step rasm qm rules i st of
        Inl e \<Rightarrow> Inl e
      | Inr st' \<Rightarrow> tokens_loop rasm qm rules is st')"

definition apply_rules ::
  "(str \<Rightarrow> str) \<Rightarrow> token list \<Rightarrow> rule list \<Rightarrow> qmorf \<Rightarrow> counts option \<Rightarrow> result" where
  "apply_rules rasm tokens rules qm cs =
     tokens_loop rasm qm rules [0..<length tokens] (tokens, cs)"

section \<open>The constants and the rule tables\<close>

text \<open>The letters of the sandhi classes (\<open>HAMZA\<close>, \<open>ITHHAR\<close>, \<open>IDGHAM\<close>, \<open>IKHFA2\<close>) and
  \<open>CONS\<close>, the letter beh followed by the three classes.\<close>

definition HAMZA :: str where
  "HAMZA = [0x621, 0x623, 0x625, 0x624, 0x626]"

definition ITHHAR :: str where
  "ITHHAR = HAMZA @ [0x62D, 0x62E, 0x639, 0x63A, 0x647]"

definition IDGHAM :: str where
  "IDGHAM = [0x646, 0x645, 0x648, 0x6CC, 0x644, 0x631]"

definition IKHFA2 :: str where
  "IKHFA2 = [0x62A, 0x62B, 0x62C, 0x62F, 0x630, 0x632, 0x633, 0x634, 0x635, 0x636, 0x637, 0x638, 0x641, 0x642, 0x643]"

definition CONS :: str where
  "CONS = [0x628] @ ITHHAR @ IDGHAM @ IKHFA2"

text \<open>The index sets that the tables name.\<close>

definition MADD_HMZ_EXCEPTION :: "index set" where
  "MADD_HMZ_EXCEPTION = {(2, 72, 4)}"

definition EXCLUDE_INDEXES_MIN_Y_2 :: "index set" where
  "EXCLUDE_INDEXES_MIN_Y_2 = {(5, 81, 5), (7, 158, 23), (9, 113, 3), (9, 117, 5), (33, 30, 2),
    (33, 32, 2), (33, 38, 4), (33, 50, 33), (33, 53, 7), (33, 56, 6), (49, 2, 9)}"

definition EXCLUDE_INDEXES_SIL_1 :: "index set" where
  "EXCLUDE_INDEXES_SIL_1 = {(2, 160, 9), (9, 94, 13), (15, 49, 5), (15, 89, 3), (20, 13, 1),
    (20, 14, 2), (27, 9, 3), (28, 30, 16)}"

definition EXCLUDE_INDEXES_SIL_5 :: "index set" where
  "EXCLUDE_INDEXES_SIL_5 = {(7, 189, 22)}"

definition MITHL_yy_EXCLUDE_INDEXES :: "index set" where
  "MITHL_yy_EXCLUDE_INDEXES = {(51, 47, 3)}"

definition RESTRICT_INDEXES_MIN_Y_4 :: "index set" where
  "RESTRICT_INDEXES_MIN_Y_4 = {(25, 69, 7), (2, 258, 22), (15, 23, 3), (50, 43, 3), (30, 24, 11),
    (7, 103, 9), (10, 75, 9), (11, 97, 3), (23, 46, 3), (43, 46, 7), (28, 32, 21), (7, 127, 17),
    (28, 4, 14), (33, 53, 32), (33, 53, 36), (12, 101, 15)}"

definition RESTRICT_INDEXES_MIN_5 :: "index set" where
  "RESTRICT_INDEXES_MIN_5 = {(61, 14, 12), (62, 2, 5), (5, 111, 4), (3, 20, 13), (3, 75, 30),
    (3, 79, 21)}"

definition RESTRICT_INDEXES_SIL_6 :: "index set" where
  "RESTRICT_INDEXES_SIL_6 = {(5, 18, 5), (20, 18, 4), (26, 6, 4), (6, 5, 8), (60, 4, 14),
    (20, 119, 3), (12, 85, 3), (59, 17, 9), (5, 29, 12), (5, 33, 2), (40, 50, 12), (42, 21, 3),
    (6, 94, 21), (30, 13, 6), (26, 197, 7), (14, 21, 5), (40, 47, 6), (35, 28, 13), (23, 24, 2),
    (27, 29, 3), (27, 32, 3), (27, 38, 3), (10, 34, 12), (10, 34, 6), (10, 4, 8), (27, 64, 2),
    (30, 11, 2), (30, 27, 3), (16, 48, 9), (25, 77, 3), (75, 13, 1), (43, 18, 2), (14, 9, 3),
    (38, 21, 4), (64, 5, 3), (11, 87, 16), (24, 8, 1), (37, 106, 4), (42, 40, 1)}"

definition RESTRICT_INDEXES_SIL_7 :: "index set" where
  "RESTRICT_INDEXES_SIL_7 = {(20, 84, 3), (3, 119, 2), (65, 6, 13), (11, 116, 7), (13, 19, 15),
    (14, 52, 12), (24, 22, 3), (27, 33, 3), (2, 269, 15), (38, 29, 8), (39, 18, 12), (39, 9, 23),
    (3, 7, 45), (46, 35, 4), (4, 8, 4), (9, 86, 11), (17, 5, 9), (24, 22, 9), (24, 31, 51),
    (28, 76, 18), (35, 1, 13), (38, 45, 6), (48, 16, 8), (4, 83, 15), (4, 95, 7), (73, 11, 3),
    (9, 113, 11), (21, 37, 5), (7, 145, 18), (12, 111, 6), (20, 128, 16), (20, 54, 8),
    (24, 44, 9), (38, 43, 9), (39, 21, 30), (3, 13, 28), (3, 190, 10), (40, 54, 3), (65, 4, 15),
    (27, 33, 5), (33, 6, 8), (3, 18, 9), (8, 75, 10), (4, 59, 8), (2, 179, 5), (2, 197, 28),
    (59, 2, 39), (5, 100, 12), (65, 10, 8)}"

definition RESTRICT_INDEXES_MIN_U_7 :: "index set" where
  "RESTRICT_INDEXES_MIN_U_7 = {(4, 135, 30), (18, 16, 7)}"

definition RESTRICT_INDEXES_SIL_8 :: "index set" where
  "RESTRICT_INDEXES_SIL_8 = {(8, 65, 17), (8, 66, 12), (18, 25, 5), (24, 2, 7), (2, 259, 19),
    (2, 259, 35), (2, 261, 16), (37, 147, 3), (8, 65, 13), (8, 66, 15)}"

definition RESTRICT_INDEXES_SIL_9 :: "index set" where
  "RESTRICT_INDEXES_SIL_9 = {(21, 34, 7), (3, 144, 10), (6, 34, 21), (10, 75, 9), (11, 97, 3),
    (23, 46, 3), (28, 32, 21), (43, 46, 7), (7, 103, 9), (10, 83, 12)}"

definition RESTRICT_INDEXES_SIL_A :: "index set" where
  "RESTRICT_INDEXES_SIL_A = {(43, 13, 1), (11, 68, 7), (76, 4, 4), (76, 16, 1), (4, 135, 30),
    (18, 16, 7), (2, 275, 20), (2, 275, 25), (2, 275, 3), (2, 276, 3), (2, 278, 10), (3, 130, 6),
    (4, 161, 2), (25, 38, 2), (29, 38, 2), (53, 51, 1), (18, 14, 12), (47, 31, 7), (47, 4, 28),
    (30, 39, 5), (13, 30, 10), (38, 67, 3), (44, 33, 6), (4, 176, 8)}"

definition EXCEPTIONS_SUKUN :: "index set" where
  "EXCEPTIONS_SUKUN = {(2, 1, 5), (3, 1, 5), (29, 1, 5), (30, 1, 5), (31, 1, 5), (32, 1, 5),
    (26, 1, 5), (28, 1, 5), (27, 1, 5), (36, 1, 5), (40, 1, 5), (41, 1, 5), (42, 1, 5),
    (43, 1, 5), (44, 1, 5), (45, 1, 5), (46, 1, 5), (40, 1, 5), (41, 1, 5), (42, 1, 5),
    (43, 1, 5), (44, 1, 5), (45, 1, 5), (46, 1, 5), (19, 1, 5), (42, 2, 1), (10, 1, 5),
    (11, 1, 5), (12, 1, 5), (14, 1, 5), (15, 1, 5), (7, 1, 5), (13, 1, 5), (38, 1, 5), (50, 1, 5),
    (68, 1, 5), (20, 1, 5), (39, 69, 7), (89, 23, 1), (51, 47, 3)}"

text \<open>The removal rules, in the order of the table.\<close>

definition REMOVE_SANDHI_RULES :: "rule list" where
  "REMOVE_SANDHI_RULES = [
    \<lparr>id_rule = asc ''M1'',
     boundary = Some ((Str [0x645], Str [0x628]), ([TStr [0x645, 0x6E1]], Some [TStr [0x628]])),
     intra = None,
     FILTER_POS = None, except_ind = {}, except_lemas = {}, force_ind = {},
       restrict_ind = {}\<rparr>,
    \<lparr>id_rule = asc ''M2'',
     boundary = Some ((Str [0x645], Str [0x645, 0x651]), ([TStr [0x645, 0x6E1]],
       Some [TStr [0x645]])),
     intra = None,
     FILTER_POS = None, except_ind = {}, except_lemas = {}, force_ind = {},
       restrict_ind = {}\<rparr>,
    \<lparr>id_rule = asc ''N2.1.1.A'',
     boundary = Some ((Str [0x646], Seq (Grp 1 (In [0x646, 0x645])) (Str [0x651])),
       ([TStr [0x646, 0x6E1]], Some [TGrp 1])),
     intra = None,
     FILTER_POS = None, except_ind = {}, except_lemas = {}, force_ind = {},
       restrict_ind = {}\<rparr>,
    \<lparr>id_rule = asc ''N2.1.1.B'',
     boundary = Some ((Seq (Str [0x8F0]) (Grp 1 (Opt (In [0x627, 0x6CC]))),
       Seq (Grp 1 (In [0x646, 0x645])) (Str [0x651])), ([TStr [0x64B], TGrp 1], Some [TGrp 1])),
     intra = None,
     FILTER_POS = None, except_ind = {}, except_lemas = {}, force_ind = {},
       restrict_ind = {}\<rparr>,
    \<lparr>id_rule = asc ''N2.1.1.C'',
     boundary = Some ((Seq (Str [0x8F1]) (Opt (Grp 1 (Str [0x627, 0x6DF]))),
       Seq (Grp 1 (In [0x646, 0x645])) (Str [0x651])), ([TStr [0x64C], TGrp 1], Some [TGrp 1])),
     intra = None,
     FILTER_POS = None, except_ind = {}, except_lemas = {}, force_ind = {},
       restrict_ind = {}\<rparr>,
    \<lparr>id_rule = asc ''N2.1.1.D'',
     boundary = Some ((Str [0x8F2], Seq (Grp 1 (In [0x646, 0x645])) (Str [0x651])),
       ([TStr [0x64D]], Some [TGrp 1])),
     intra = None,
     FILTER_POS = None, except_ind = {}, except_lemas = {}, force_ind = {},
       restrict_ind = {}\<rparr>,
    \<lparr>id_rule = asc ''N2.1.2.A'',
     boundary = Some ((Str [0x646], In [0x648, 0x6CC]), ([TStr [0x646, 0x6E1]], None)),
     intra = None,
     FILTER_POS = None, except_ind = {}, except_lemas = {}, force_ind = {},
       restrict_ind = {}\<rparr>,
    \<lparr>id_rule = asc ''N2.1.2.B'',
     boundary = Some ((Seq (Str [0x8F0]) (Grp 1 (Opt (In [0x627, 0x6CC]))), In [0x648, 0x6CC]),
       ([TStr [0x64B], TGrp 1], None)),
     intra = None,
     FILTER_POS = None, except_ind = {}, except_lemas = {}, force_ind = {},
       restrict_ind = {}\<rparr>,
    \<lparr>id_rule = asc ''N2.1.2.C'',
     boundary = Some ((Str [0x8F1], In [0x648, 0x6CC]), ([TStr [0x64C]], None)),
     intra = None,
     FILTER_POS = None, except_ind = {}, except_lemas = {}, force_ind = {},
       restrict_ind = {}\<rparr>,
    \<lparr>id_rule = asc ''N2.1.2.D'',
     boundary = Some ((Str [0x8F2], In [0x648, 0x6CC]), ([TStr [0x64D]], None)),
     intra = None,
     FILTER_POS = None, except_ind = {}, except_lemas = {}, force_ind = {},
       restrict_ind = {}\<rparr>,
    \<lparr>id_rule = asc ''N2.2.A'',
     boundary = Some ((Str [0x646], Seq (Grp 1 (In [0x631, 0x644])) (Str [0x651])),
       ([TStr [0x646, 0x6E1]], Some [TGrp 1])),
     intra = None,
     FILTER_POS = None, except_ind = {}, except_lemas = {}, force_ind = {},
       restrict_ind = {}\<rparr>,
    \<lparr>id_rule = asc ''N2.2.B'',
     boundary = Some ((Seq (Str [0x8F0]) (Grp 1 (Opt (In [0x627, 0x6CC]))),
       Seq (Grp 1 (In [0x631, 0x644])) (Str [0x651])), ([TStr [0x64B], TGrp 1], Some [TGrp 1])),
     intra = None,
     FILTER_POS = None, except_ind = {}, except_lemas = {}, force_ind = {},
       restrict_ind = {}\<rparr>,
    \<lparr>id_rule = asc ''N2.2.C'',
     boundary = Some ((Str [0x8F1], Seq (Grp 1 (In [0x631, 0x644])) (Str [0x651])),
       ([TStr [0x64C]], Some [TGrp 1])),
     intra = None,
     FILTER_POS = None, except_ind = {}, except_lemas = {}, force_ind = {},
       restrict_ind = {}\<rparr>,
    \<lparr>id_rule = asc ''N2.2.D'',
     boundary = Some ((Str [0x8F2], Seq (Grp 1 (In [0x631, 0x644])) (Str [0x651])),
       ([TStr [0x64D]], Some [TGrp 1])),
     intra = None,
     FILTER_POS = None, except_ind = {}, except_lemas = {}, force_ind = {},
       restrict_ind = {}\<rparr>,
    \<lparr>id_rule = asc ''N3.A'',
     boundary = Some ((Str [0x646, 0x6E2], Str [0x628]), ([TStr [0x646, 0x6E1]], None)),
     intra = Some (Seq (Str [0x646, 0x6E2]) (Ahead (Str [0x628])), [TStr [0x646, 0x6E1]]),
     FILTER_POS = None, except_ind = {}, except_lemas = {}, force_ind = {},
       restrict_ind = {}\<rparr>,
    \<lparr>id_rule = asc ''N3.B'',
     boundary = Some ((Seq (Str [0x64E, 0x6E2]) (Opt (Grp 1 (Str [0x627]))), Str [0x628]),
       ([TStr [0x64B], TGrp 1], None)),
     intra = None,
     FILTER_POS = None, except_ind = {}, except_lemas = {}, force_ind = {},
       restrict_ind = {}\<rparr>,
    \<lparr>id_rule = asc ''N3.C'',
     boundary = Some ((Str [0x64F, 0x6E2], Str [0x628]), ([TStr [0x64C]], None)),
     intra = None,
     FILTER_POS = None, except_ind = {}, except_lemas = {}, force_ind = {},
       restrict_ind = {}\<rparr>,
    \<lparr>id_rule = asc ''N3.D'',
     boundary = Some ((Str [0x650, 0x6ED], Str [0x628]), ([TStr [0x64D]], None)),
     intra = None,
     FILTER_POS = None, except_ind = {}, except_lemas = {}, force_ind = {},
       restrict_ind = {}\<rparr>,
    \<lparr>id_rule = asc ''N4.A'',
     boundary = Some ((Str [0x646], Ahead (In IKHFA2)), ([TStr [0x646, 0x6E1]], None)),
     intra = Some (Seq (Str [0x646]) (Ahead (In IKHFA2)), [TStr [0x646, 0x6E1]]),
     FILTER_POS = None, except_ind = {}, except_lemas = {}, force_ind = {},
       restrict_ind = {}\<rparr>,
    \<lparr>id_rule = asc ''N4.B'',
     boundary = Some ((Seq (Str [0x8F0]) (Opt (Grp 1 (In [0x627, 0x6CC]))), Ahead (In IKHFA2)),
       ([TStr [0x64B], TGrp 1], None)),
     intra = None,
     FILTER_POS = None, except_ind = {}, except_lemas = {}, force_ind = {},
       restrict_ind = {}\<rparr>,
    \<lparr>id_rule = asc ''N4.C'',
     boundary = Some ((Str [0x8F1], Ahead (In IKHFA2)), ([TStr [0x64C]], None)),
     intra = None,
     FILTER_POS = None, except_ind = {}, except_lemas = {}, force_ind = {},
       restrict_ind = {}\<rparr>,
    \<lparr>id_rule = asc ''N4.D'',
     boundary = Some ((Str [0x8F2], Ahead (In IKHFA2)), ([TStr [0x64D]], None)),
     intra = None,
     FILTER_POS = None, except_ind = {}, except_lemas = {}, force_ind = {},
       restrict_ind = {}\<rparr>,
    \<lparr>id_rule = asc ''MADD-hmz'',
     boundary = Some ((Seq (Grp 1 (Alt (Str [0x64E, 0x627]) (Alt (Str [0x64E, 0x6CC,
       0x670]) (Alt (Seq (Str [0x64F]) (In [0x648, 0x6E5])) (Seq (Str [0x650]) (In [0x6CC,
       0x6E6])))))) (Str [0x653]),
       Alt (In HAMZA) (Alt (Seq (In [0x649, 0x6CC]) (Str [0x655])) (Str [0x654]))), ([TGrp 1],
       None)),
     intra = Some (Seq (Grp 1 (Alt (Seq (Str [0x64E]) (In [0x627,
       0x670])) (Alt (Seq (Str [0x64F]) (In [0x648, 0x6E5])) (Seq (Str [0x650]) (In [0x6CC,
       0x6E6]))))) (Seq (Str [0x653]) (Ahead (Seq (Opt (Str [0x640])) (Alt (In HAMZA) (Alt (Seq (In [0x649, 0x6CC]) (Str [0x655])) (Str [0x654])))))), [TGrp 1]),
     FILTER_POS = None, except_ind = MADD_HMZ_EXCEPTION, except_lemas = {}, force_ind = {},
       restrict_ind = {}\<rparr>,
    \<lparr>id_rule = asc ''MADD-hmz-A-sil'',
     boundary = Some ((Str [0x64F, 0x648, 0x653, 0x627, 0x6DF],
       Alt (In HAMZA) (Seq (In [0x649, 0x6CC]) (Str [0x655]))),
       ([TStr [0x64F, 0x648, 0x627, 0x6DF]], None)),
     intra = None,
     FILTER_POS = None, except_ind = {}, except_lemas = {}, force_ind = {},
       restrict_ind = {}\<rparr>,
    \<lparr>id_rule = asc ''MADD-hmz-sp-1'',
     boundary = None,
     intra = Some (Str [0x62A, 0x64E, 0x644, 0x6E1, 0x648, 0x64F, 0x6E5, 0x653, 0x627, 0x6DF],
       [TStr [0x62A, 0x64E, 0x644, 0x6E1, 0x648, 0x64F, 0x6E5, 0x627, 0x6DF]]),
     FILTER_POS = None, except_ind = {}, except_lemas = {}, force_ind = {},
       restrict_ind = {}\<rparr>,
    \<lparr>id_rule = asc ''MADD-hmz-sp-2'',
     boundary = None,
     intra = Some (Str [0x641, 0x64E, 0x623, 0x6E1, 0x648, 0x64F, 0x6E5, 0x653, 0x627, 0x6DF],
       [TStr [0x641, 0x64E, 0x623, 0x6E1, 0x648, 0x64F, 0x6E5, 0x627, 0x6DF]]),
     FILTER_POS = None, except_ind = {}, except_lemas = {}, force_ind = {},
       restrict_ind = {}\<rparr>,
    \<lparr>id_rule = asc ''MADD-hmz-sp-3'',
     boundary = None,
     intra = Some (Str [0x648, 0x64E, 0x62C, 0x650, 0x627, 0x6DF, 0x6CC, 0x653, 0x621, 0x64E],
       [TStr [0x648, 0x64E, 0x62C, 0x650, 0x627, 0x6DF, 0x6CC, 0x621, 0x64E]]),
     FILTER_POS = None, except_ind = {}, except_lemas = {}, force_ind = {},
       restrict_ind = {}\<rparr>,
    \<lparr>id_rule = asc ''MADD-hmz-sp-4'',
     boundary = Some ((Str [0x671, 0x644, 0x631, 0x651, 0x650, 0x628, 0x64E, 0x648, 0x670, 0x653,
       0x627, 0x6DF], In HAMZA),
       ([TStr [0x671, 0x644, 0x631, 0x651, 0x650, 0x628, 0x64E, 0x648, 0x670, 0x627, 0x6DF]],
       None)),
     intra = None,
     FILTER_POS = None, except_ind = {}, except_lemas = {}, force_ind = {},
       restrict_ind = {}\<rparr>,
    \<lparr>id_rule = asc ''MADD-lzm'',
     boundary = None,
     intra = Some (Seq (Grp 1 (Alt (Seq (Str [0x64E]) (In [0x627, 0x670])) (Alt (Str [0x64F,
       0x648]) (Str [0x650, 0x6CC])))) (Seq (Str [0x653]) (Ahead (Seq (In CONS) (Alt (In [0x651,
       0x652]) (In CONS))))), [TGrp 1]),
     FILTER_POS = None, except_ind = {}, except_lemas = {}, force_ind = {},
       restrict_ind = {}\<rparr>,
    \<lparr>id_rule = asc ''MADD-shdd-skn'',
     boundary = None,
     intra = Some (Seq (Str [0x64E, 0x627, 0x653]) (Seq (Grp 1 (In CONS)) (Ahead (In [0x651,
       0x6E1]))), [TStr [0x64E, 0x627], TGrp 1]),
     FILTER_POS = None, except_ind = {}, except_lemas = {}, force_ind = {},
       restrict_ind = {}\<rparr>,
    \<lparr>id_rule = asc ''MADD-sp-1'',
     boundary = None,
     intra = Some (Seq Bol (Seq (Str [0x627, 0x644, 0x653, 0x645, 0x653]) Eol),
       [TStr [0x627, 0x644, 0x645]]),
     FILTER_POS = None, except_ind = {}, except_lemas = {}, force_ind = {},
       restrict_ind = {}\<rparr>,
    \<lparr>id_rule = asc ''MADD-sp-2'',
     boundary = None,
     intra = Some (Seq Bol (Seq (Str [0x637, 0x633, 0x653, 0x645, 0x653]) Eol),
       [TStr [0x637, 0x633, 0x645]]),
     FILTER_POS = None, except_ind = {}, except_lemas = {}, force_ind = {},
       restrict_ind = {}\<rparr>,
    \<lparr>id_rule = asc ''MADD-sp-3'',
     boundary = None,
     intra = Some (Seq Bol (Seq (Str [0x637, 0x633, 0x653]) Eol), [TStr [0x637, 0x633]]),
     FILTER_POS = None, except_ind = {}, except_lemas = {}, force_ind = {},
       restrict_ind = {}\<rparr>,
    \<lparr>id_rule = asc ''MADD-sp-4'',
     boundary = None,
     intra = Some (Seq Bol (Seq (Str [0x6CC, 0x633, 0x653]) Eol), [TStr [0x6CC, 0x633]]),
     FILTER_POS = None, except_ind = {}, except_lemas = {}, force_ind = {},
       restrict_ind = {}\<rparr>,
    \<lparr>id_rule = asc ''MADD-sp-5'',
     boundary = None,
     intra = Some (Seq Bol (Seq (Str [0x62D, 0x645, 0x653]) Eol), [TStr [0x62D, 0x645]]),
     FILTER_POS = None, except_ind = {}, except_lemas = {}, force_ind = {},
       restrict_ind = {}\<rparr>,
    \<lparr>id_rule = asc ''MADD-sp-6'',
     boundary = None,
     intra = Some (Seq Bol (Seq (Str [0x643, 0x653, 0x647, 0x6CC, 0x639, 0x653, 0x635,
       0x653]) Eol), [TStr [0x643, 0x647, 0x6CC, 0x639, 0x635]]),
     FILTER_POS = None, except_ind = {}, except_lemas = {}, force_ind = {},
       restrict_ind = {}\<rparr>,
    \<lparr>id_rule = asc ''MADD-sp-7'',
     boundary = None,
     intra = Some (Seq Bol (Seq (Str [0x627, 0x644, 0x653, 0x631]) Eol),
       [TStr [0x627, 0x644, 0x631]]),
     FILTER_POS = None, except_ind = {}, except_lemas = {}, force_ind = {},
       restrict_ind = {}\<rparr>,
    \<lparr>id_rule = asc ''MADD-sp-8'',
     boundary = None,
     intra = Some (Seq Bol (Seq (Str [0x627, 0x644, 0x653, 0x645, 0x653, 0x635, 0x653]) Eol),
       [TStr [0x627, 0x644, 0x645, 0x635]]),
     FILTER_POS = None, except_ind = {}, except_lemas = {}, force_ind = {},
       restrict_ind = {}\<rparr>,
    \<lparr>id_rule = asc ''MADD-sp-9'',
     boundary = None,
     intra = Some (Seq Bol (Seq (Str [0x627, 0x644, 0x653, 0x645, 0x653, 0x631]) Eol),
       [TStr [0x627, 0x644, 0x645, 0x631]]),
     FILTER_POS = None, except_ind = {}, except_lemas = {}, force_ind = {},
       restrict_ind = {}\<rparr>,
    \<lparr>id_rule = asc ''MADD-sp-A'',
     boundary = None,
     intra = Some (Seq Bol (Seq (Str [0x635, 0x653]) Eol), [TStr [0x635]]),
     FILTER_POS = None, except_ind = {}, except_lemas = {}, force_ind = {},
       restrict_ind = {}\<rparr>,
    \<lparr>id_rule = asc ''MADD-sp-B'',
     boundary = None,
     intra = Some (Seq Bol (Seq (Str [0x639, 0x653, 0x633, 0x653, 0x642, 0x653]) Eol),
       [TStr [0x639, 0x633, 0x642]]),
     FILTER_POS = None, except_ind = {}, except_lemas = {}, force_ind = {},
       restrict_ind = {}\<rparr>,
    \<lparr>id_rule = asc ''MADD-sp-C'',
     boundary = None,
     intra = Some (Seq Bol (Seq (Str [0x642, 0x653]) Eol), [TStr [0x642]]),
     FILTER_POS = None, except_ind = {}, except_lemas = {}, force_ind = {},
       restrict_ind = {}\<rparr>,
    \<lparr>id_rule = asc ''MADD-sp-D'',
     boundary = None,
     intra = Some (Seq Bol (Seq (Str [0x646, 0x653]) Eol), [TStr [0x646]]),
     FILTER_POS = None, except_ind = {}, except_lemas = {}, force_ind = {},
       restrict_ind = {}\<rparr>,
    \<lparr>id_rule = asc ''SHMS'',
     boundary = None,
     intra = Some (Seq (Grp 1 (Alt (Str [0x671]) (Alt (Seq (Str [0x644]) (Seq (Opt (Str [0x651])) (Str [0x650]))) (Alt (Str [0x648, 0x64E, 0x644, 0x64E]) (Str [0x621, 0x64E, 0x627]))))) (Seq (Str [0x644]) (Seq (Grp 2 (In [0x637, 0x62B, 0x635, 0x631, 0x62A, 0x636, 0x630, 0x646, 0x62F, 0x633, 0x638, 0x632, 0x634, 0x644])) (Str [0x651]))), [TGrp 1, TStr [0x644, 0x6E1], TGrp 2]),
     FILTER_POS = Some (asc ''N''), except_ind = {}, except_lemas = {}, force_ind = {},
       restrict_ind = {}\<rparr>,
    \<lparr>id_rule = asc ''MITHL-bb'',
     boundary = Some ((Str [0x628], Str [0x628, 0x651]), ([TStr [0x628, 0x6E1]],
       Some [TStr [0x628]])),
     intra = None,
     FILTER_POS = None, except_ind = {}, except_lemas = {}, force_ind = {},
       restrict_ind = {}\<rparr>,
    \<lparr>id_rule = asc ''MITHL-dd'',
     boundary = Some ((Str [0x62F], Str [0x62F, 0x651]), ([TStr [0x62F, 0x6E1]],
       Some [TStr [0x62F]])),
     intra = Some (Str [0x62F, 0x62F, 0x651], [TStr [0x62F, 0x6E1, 0x62F]]),
     FILTER_POS = None, except_ind = {}, except_lemas = {}, force_ind = {},
       restrict_ind = {}\<rparr>,
    \<lparr>id_rule = asc ''MITHL-kk'',
     boundary = Some ((Str [0x643], Str [0x643, 0x651]), ([TStr [0x643, 0x6E1]],
       Some [TStr [0x643]])),
     intra = Some (Str [0x643, 0x643, 0x651], [TStr [0x643, 0x6E1, 0x643]]),
     FILTER_POS = None, except_ind = {}, except_lemas = {}, force_ind = {},
       restrict_ind = {}\<rparr>,
    \<lparr>id_rule = asc ''MITHL-ll'',
     boundary = Some ((Str [0x644], Str [0x644, 0x651]), ([TStr [0x644, 0x6E1]],
       Some [TStr [0x644]])),
     intra = Some (Str [0x644, 0x644, 0x651], [TStr [0x644, 0x6E1, 0x644]]),
     FILTER_POS = None, except_ind = {}, except_lemas = {}, force_ind = {},
       restrict_ind = {}\<rparr>,
    \<lparr>id_rule = asc ''MITHL-yy'',
     boundary = None,
     intra = Some (Str [0x6CC, 0x6CC, 0x651], [TStr [0x6CC, 0x6E1, 0x6CC]]),
     FILTER_POS = None, except_ind = MITHL_yy_EXCLUDE_INDEXES, except_lemas = {}, force_ind = {},
       restrict_ind = {}\<rparr>,
    \<lparr>id_rule = asc ''MITHL-hh'',
     boundary = None,
     intra = Some (Str [0x647, 0x647, 0x651], [TStr [0x647, 0x6E1, 0x647]]),
     FILTER_POS = None, except_ind = {}, except_lemas = {}, force_ind = {},
       restrict_ind = {}\<rparr>,
    \<lparr>id_rule = asc ''MITHL-ww'',
     boundary = Some ((Seq (Str [0x648]) (Opt (Grp 1 (Str [0x627, 0x6DF]))), Str [0x648, 0x651]),
       ([TStr [0x648, 0x6E1], TGrp 1], Some [TStr [0x648]])),
     intra = None,
     FILTER_POS = None, except_ind = {}, except_lemas = {}, force_ind = {},
       restrict_ind = {}\<rparr>,
    \<lparr>id_rule = asc ''MITHL-tt'',
     boundary = Some ((Str [0x62A], Str [0x62A, 0x651]), ([TStr [0x62A, 0x6E1]],
       Some [TStr [0x62A]])),
     intra = None,
     FILTER_POS = None, except_ind = {}, except_lemas = {}, force_ind = {},
       restrict_ind = {}\<rparr>,
    \<lparr>id_rule = asc ''MITHL-rr'',
     boundary = Some ((Str [0x631], Str [0x631, 0x651]), ([TStr [0x631, 0x6E1]],
       Some [TStr [0x631]])),
     intra = None,
     FILTER_POS = None, except_ind = {}, except_lemas = {}, force_ind = {},
       restrict_ind = {}\<rparr>,
    \<lparr>id_rule = asc ''MITHL-'' @ [0xF0] @ [0xF0],
     boundary = Some ((Str [0x630], Str [0x630, 0x651]), ([TStr [0x630, 0x6E1]],
       Some [TStr [0x630]])),
     intra = None,
     FILTER_POS = None, except_ind = {}, except_lemas = {}, force_ind = {},
       restrict_ind = {}\<rparr>,
    \<lparr>id_rule = asc ''MITHL-ff'',
     boundary = Some ((Str [0x641], Str [0x641, 0x651]), ([TStr [0x641, 0x6E1]],
       Some [TStr [0x641]])),
     intra = None,
     FILTER_POS = None, except_ind = {}, except_lemas = {}, force_ind = {},
       restrict_ind = {}\<rparr>,
    \<lparr>id_rule = asc ''MITHL-33'',
     boundary = Some ((Str [0x639], Str [0x639, 0x651]), ([TStr [0x639, 0x6E1]],
       Some [TStr [0x639]])),
     intra = None,
     FILTER_POS = None, except_ind = {}, except_lemas = {}, force_ind = {},
       restrict_ind = {}\<rparr>,
    \<lparr>id_rule = asc ''MTJNS-dt'',
     boundary = Some ((Str [0x62F], Str [0x62A, 0x651]), ([TStr [0x62F, 0x6E1]],
       Some [TStr [0x62A]])),
     intra = Some (Str [0x62F, 0x62A, 0x651], [TStr [0x62F, 0x6E1, 0x62A]]),
     FILTER_POS = None, except_ind = {}, except_lemas = {}, force_ind = {},
       restrict_ind = {}\<rparr>,
    \<lparr>id_rule = asc ''MTJNS-td'',
     boundary = Some ((Str [0x62A], Str [0x62F, 0x651]), ([TStr [0x62A, 0x6E1]],
       Some [TStr [0x62F]])),
     intra = None,
     FILTER_POS = None, except_ind = {}, except_lemas = {}, force_ind = {},
       restrict_ind = {}\<rparr>,
    \<lparr>id_rule = asc ''MTJNS-tT'',
     boundary = Some ((Str [0x62A], Str [0x637, 0x651]), ([TStr [0x62A, 0x6E1]],
       Some [TStr [0x637]])),
     intra = None,
     FILTER_POS = None, except_ind = {}, except_lemas = {}, force_ind = {},
       restrict_ind = {}\<rparr>,
    \<lparr>id_rule = asc ''MTJNS-'' @ [0x1E6F] @ [0xF0],
     boundary = Some ((Str [0x62B], Str [0x630, 0x651]), ([TStr [0x62B, 0x6E1]],
       Some [TStr [0x630]])),
     intra = None,
     FILTER_POS = None, except_ind = {}, except_lemas = {}, force_ind = {},
       restrict_ind = {}\<rparr>,
    \<lparr>id_rule = asc ''MTJNS-lr'',
     boundary = Some ((Str [0x644], Str [0x631, 0x651]), ([TStr [0x644, 0x6E1]],
       Some [TStr [0x631]])),
     intra = None,
     FILTER_POS = None, except_ind = {}, except_lemas = {}, force_ind = {},
       restrict_ind = {}\<rparr>,
    \<lparr>id_rule = asc ''MTJNS-'' @ [0xF0] @ [0x1E6E],
     boundary = Some ((Str [0x630], Str [0x638, 0x651]), ([TStr [0x630, 0x6E1]],
       Some [TStr [0x638]])),
     intra = None,
     FILTER_POS = None, except_ind = {}, except_lemas = {}, force_ind = {},
       restrict_ind = {}\<rparr>,
    \<lparr>id_rule = asc ''MTJNS-qk'',
     boundary = None,
     intra = Some (Str [0x642, 0x643, 0x651], [TStr [0x642, 0x6E1, 0x643]]),
     FILTER_POS = None, except_ind = {}, except_lemas = {}, force_ind = {},
       restrict_ind = {}\<rparr>,
    \<lparr>id_rule = asc ''MTJNS-bm'',
     boundary = Some ((Str [0x628], Str [0x645, 0x651]), ([TStr [0x628, 0x6E1]],
       Some [TStr [0x645]])),
     intra = None,
     FILTER_POS = None, except_ind = {}, except_lemas = {}, force_ind = {},
       restrict_ind = {}\<rparr>,
    \<lparr>id_rule = asc ''t-assim'',
     boundary = None,
     intra = Some (Str [0x637, 0x62A], [TStr [0x637, 0x6E1, 0x62A]]),
     FILTER_POS = None, except_ind = {}, except_lemas = {}, force_ind = {},
       restrict_ind = {}\<rparr>,
    \<lparr>id_rule = asc ''HU'',
     boundary = Some ((Seq (Behind (In [0x64E, 0x64F, 0x650])) (Str [0x647, 0x64F, 0x6E5]),
       NotLit 0x671), ([TStr [0x647, 0x64F]], None)),
     intra = None,
     FILTER_POS = None, except_ind = {(39, 7, 13)}, except_lemas = {}, force_ind = {},
       restrict_ind = {}\<rparr>,
    \<lparr>id_rule = asc ''min-u-1'',
     boundary = None,
     intra = Some (Str [0x62F, 0x64E, 0x627, 0x648, 0x64F, 0x6E5, 0x62F],
       [TStr [0x62F, 0x64E, 0x627, 0x648, 0x64F, 0x62F]]),
     FILTER_POS = None, except_ind = {}, except_lemas = {}, force_ind = {},
       restrict_ind = {}\<rparr>,
    \<lparr>id_rule = asc ''min-u-2'',
     boundary = None,
     intra = Some (Seq (Grp 1 (In [0x6CC, 0x62A])) (Str [0x64E, 0x644, 0x6E1, 0x648, 0x64F, 0x6E5,
       0x646, 0x64E]), [TGrp 1, TStr [0x64E, 0x644, 0x6E1, 0x648, 0x64F, 0x646, 0x64E]]),
     FILTER_POS = None, except_ind = {}, except_lemas = {}, force_ind = {},
       restrict_ind = {}\<rparr>,
    \<lparr>id_rule = asc ''min-u-3'',
     boundary = None,
     intra = Some (Str [0x648, 0x64F, 0x6E5, 0x631, 0x650, 0x6CC, 0x64E],
       [TStr [0x648, 0x64F, 0x631, 0x650, 0x6CC, 0x64E]]),
     FILTER_POS = None, except_ind = {}, except_lemas = {}, force_ind = {},
       restrict_ind = {}\<rparr>,
    \<lparr>id_rule = asc ''min-u-4'',
     boundary = None,
     intra = Some (Seq (Grp 1 (Alt (Str [0x644, 0x650, 0x62A]) (Str [0x6CC]))) (Seq (Str [0x64E,
       0x633, 0x6E1, 0x62A, 0x64E, 0x648, 0x64F, 0x6E5]) (Grp 2 (Alt (Str [0x627,
       0x6DF]) (Str [0x646, 0x64E])))), [TGrp 1,
       TStr [0x64E, 0x633, 0x6E1, 0x62A, 0x64E, 0x648, 0x64F], TGrp 2]),
     FILTER_POS = None, except_ind = {}, except_lemas = {}, force_ind = {},
       restrict_ind = {}\<rparr>,
    \<lparr>id_rule = asc ''min-u-5'',
     boundary = None,
     intra = Some (Seq (Opt (Grp 1 (Str [0x648, 0x64E]))) (Str [0x671, 0x644, 0x6E1, 0x63A, 0x64E,
       0x627, 0x648, 0x64F, 0x6E5, 0x646, 0x64E]), [TGrp 1,
       TStr [0x671, 0x644, 0x6E1, 0x63A, 0x64E, 0x627, 0x648, 0x64F, 0x646, 0x64E]]),
     FILTER_POS = None, except_ind = {}, except_lemas = {}, force_ind = {},
       restrict_ind = {}\<rparr>,
    \<lparr>id_rule = asc ''min-u-6'',
     boundary = None,
     intra = Some (Str [0x671, 0x644, 0x6E1, 0x645, 0x64E, 0x648, 0x6E1, 0x621, 0x64F, 0x6E5,
       0x62F, 0x64E, 0x629, 0x64F],
       [TStr [0x671, 0x644, 0x6E1, 0x645, 0x64E, 0x648, 0x6E1, 0x621, 0x64F, 0x62F, 0x64E, 0x629,
       0x64F]]),
     FILTER_POS = None, except_ind = {}, except_lemas = {}, force_ind = {},
       restrict_ind = {}\<rparr>,
    \<lparr>id_rule = asc ''min-u-7'',
     boundary = None,
     intra = Some (Str [0x648, 0x64F, 0x6E5], [TStr [0x648, 0x64F]]),
     FILTER_POS = None, except_ind = {}, except_lemas = {}, force_ind = {},
       restrict_ind = RESTRICT_INDEXES_MIN_U_7\<rparr>,
    \<lparr>id_rule = asc ''min-u-8'',
     boundary = None,
     intra = Some (Seq (Str [0x644, 0x650, 0x6CC, 0x64E, 0x633, 0x64F,
       0x6E5]) (Seq (Opt (Grp 1 (Str [0x640]))) (Str [0x654, 0x64F, 0x648, 0x627])),
       [TStr [0x644, 0x650, 0x6CC, 0x64E, 0x633, 0x64F], TGrp 1,
       TStr [0x654, 0x64F, 0x648, 0x627]]),
     FILTER_POS = None, except_ind = {}, except_lemas = {}, force_ind = {},
       restrict_ind = {(17, 7, 12)}\<rparr>,
    \<lparr>id_rule = asc ''HI'',
     boundary = Some ((Seq (Behind (In [0x64E, 0x64F, 0x650])) (Str [0x647, 0x650, 0x6E6]),
       NotLit 0x671), ([TStr [0x647, 0x650]], None)),
     intra = None,
     FILTER_POS = None, except_ind = {}, except_lemas = {}, force_ind = {},
       restrict_ind = {}\<rparr>,
    \<lparr>id_rule = asc ''min-y-1'',
     boundary = None,
     intra = Some (Str [0x625, 0x650, 0x628, 0x6E1, 0x631, 0x64E, 0x670, 0x647, 0x650, 0x6E7,
       0x645], [TStr [0x625, 0x650, 0x628, 0x6E1, 0x631, 0x64E, 0x670, 0x647, 0x650, 0x645]]),
     FILTER_POS = None, except_ind = {}, except_lemas = {}, force_ind = {},
       restrict_ind = {}\<rparr>,
    \<lparr>id_rule = asc ''min-y-2'',
     boundary = None,
     intra = Some (Str [0x646, 0x64E, 0x628, 0x650, 0x6CC, 0x651, 0x650, 0x6E7],
       [TStr [0x646, 0x64E, 0x628, 0x650, 0x6CC, 0x651, 0x650]]),
     FILTER_POS = None, except_ind = EXCLUDE_INDEXES_MIN_Y_2, except_lemas = {}, force_ind = {},
       restrict_ind = {}\<rparr>,
    \<lparr>id_rule = asc ''min-y-3'',
     boundary = Some ((Seq Bol (Seq (Str [0x6CC, 0x64F, 0x62D, 0x6E1, 0x6CC, 0x650, 0x6E6]) Eol),
       NotLit 0x671), ([TStr [0x6CC, 0x64F, 0x62D, 0x6E1, 0x6CC, 0x650]], None)),
     intra = None,
     FILTER_POS = None, except_ind = {}, except_lemas = {}, force_ind = {},
       restrict_ind = {}\<rparr>,
    \<lparr>id_rule = asc ''min-y-4'',
     boundary = None,
     intra = Some (Seq (Str [0x6E6]) Eol, []),
     FILTER_POS = None, except_ind = {}, except_lemas = {}, force_ind = {},
       restrict_ind = RESTRICT_INDEXES_MIN_Y_4\<rparr>,
    \<lparr>id_rule = asc ''min-y-5'',
     boundary = None,
     intra = Some (Seq (Str [0x650, 0x6E7, 0x646, 0x64E]) Eol, [TStr [0x650, 0x646, 0x64E]]),
     FILTER_POS = None, except_ind = {}, except_lemas = {}, force_ind = {},
       restrict_ind = RESTRICT_INDEXES_MIN_5\<rparr>,
    \<lparr>id_rule = asc ''min-y-6'',
     boundary = None,
     intra = Some (Str [0x621, 0x64E, 0x627, 0x62A, 0x64E, 0x649, 0x670, 0x646, 0x650, 0x6E6],
       [TStr [0x621, 0x64E, 0x627, 0x62A, 0x64E, 0x649, 0x670, 0x646, 0x650]]),
     FILTER_POS = None, except_ind = {}, except_lemas = {}, force_ind = {},
       restrict_ind = {(27, 36, 8)}\<rparr>,
    \<lparr>id_rule = asc ''min-y-7'',
     boundary = None,
     intra = Some (Str [0x625, 0x650, 0x6E7, 0x644, 0x64E, 0x670, 0x641, 0x650, 0x647, 0x650,
       0x645, 0x6E1],
       [TStr [0x625, 0x650, 0x644, 0x64E, 0x670, 0x641, 0x650, 0x647, 0x650, 0x645, 0x6E1]]),
     FILTER_POS = None, except_ind = {}, except_lemas = {}, force_ind = {},
       restrict_ind = {(106, 2, 1)}\<rparr>,
    \<lparr>id_rule = asc ''min-y-8'',
     boundary = None,
     intra = Some (Str [0x62D, 0x6E1, 0x6E7, 0x650, 0x6CC], [TStr [0x62D, 0x6E1, 0x650, 0x6CC]]),
     FILTER_POS = None, except_ind = {}, except_lemas = {}, force_ind = {},
       restrict_ind = {(25, 49, 1), (46, 33, 15), (75, 40, 6)}\<rparr>,
    \<lparr>id_rule = asc ''min-y-9'',
     boundary = None,
     intra = Some (Str [0x648, 0x64E, 0x644, 0x650, 0x6E7, 0x651, 0x650, 0x6CC],
       [TStr [0x648, 0x64E, 0x644, 0x650, 0x651, 0x650, 0x6CC]]),
     FILTER_POS = None, except_ind = {}, except_lemas = {}, force_ind = {},
       restrict_ind = {(7, 196, 2)}\<rparr>,
    \<lparr>id_rule = asc ''min-y-A'',
     boundary = None,
     intra = Some (Str [0x6CC, 0x64E, 0x633, 0x6E1, 0x62A, 0x64E, 0x62D, 0x6E1, 0x6CC, 0x650,
       0x6E6], [TStr [0x6CC, 0x64E, 0x633, 0x6E1, 0x62A, 0x64E, 0x62D, 0x6E1, 0x6CC, 0x650]]),
     FILTER_POS = None, except_ind = {}, except_lemas = {}, force_ind = {},
       restrict_ind = {(2, 26, 5)}\<rparr>,
    \<lparr>id_rule = asc ''sakt-1'',
     boundary = None,
     intra = Some (Str [0x635, 0x6DC], [TStr [0x635]]),
     FILTER_POS = None, except_ind = {}, except_lemas = {}, force_ind = {},
       restrict_ind = {(2, 245, 14), (7, 69, 22)}\<rparr>,
    \<lparr>id_rule = asc ''sakt-2'',
     boundary = None,
     intra = Some (Str [0x627, 0x6DC], [TStr [0x627]]),
     FILTER_POS = None, except_ind = {}, except_lemas = {}, force_ind = {},
       restrict_ind = {(18, 1, 15), (36, 52, 6)}\<rparr>,
    \<lparr>id_rule = asc ''sakt-3'',
     boundary = None,
     intra = Some (Str [0x6E1, 0x6DC], [TStr [0x6E1]]),
     FILTER_POS = None, except_ind = {}, except_lemas = {}, force_ind = {},
       restrict_ind = {(69, 28, 4), (75, 27, 2), (83, 14, 2)}\<rparr>,
    \<lparr>id_rule = asc ''P-sil-1'',
     boundary = None,
     intra = Some (Seq Bol (Seq (Grp 1 (Alt (Seq (Opt (Alt (Str [0x648, 0x64E]) (Str [0x641,
       0x64E]))) (Str [0x623, 0x64E, 0x646, 0x64E, 0x627])) (Alt (Str [0x644, 0x64E, 0x670, 0x643,
       0x650, 0x646, 0x651, 0x64E, 0x627]) (Alt (Str [0x671, 0x644, 0x6E1, 0x631, 0x64E, 0x633,
       0x64F, 0x648, 0x644, 0x64E, 0x627]) (Alt (Str [0x671, 0x644, 0x6E1, 0x633, 0x64E, 0x628,
       0x650, 0x6CC, 0x644, 0x64E, 0x627]) (Str [0x671, 0x644, 0x6E1, 0x638, 0x64F, 0x646, 0x64F,
       0x648, 0x646, 0x64E, 0x627])))))) (Seq (Str [0x6E0]) Eol)), [TGrp 1]),
     FILTER_POS = None, except_ind = {}, except_lemas = {}, force_ind = {},
       restrict_ind = {}\<rparr>,
    \<lparr>id_rule = asc ''P-sil-2'',
     boundary = None,
     intra = Some (Str [0x642, 0x64E, 0x648, 0x64E, 0x627, 0x631, 0x650, 0x6CC, 0x631, 0x64E,
       0x627, 0x6E0],
       [TStr [0x642, 0x64E, 0x648, 0x64E, 0x627, 0x631, 0x650, 0x6CC, 0x631, 0x64E, 0x627]]),
     FILTER_POS = None, except_ind = {}, except_lemas = {}, force_ind = {},
       restrict_ind = {(76, 15, 8)}\<rparr>,
    \<lparr>id_rule = asc ''Sil-1'',
     boundary = None,
     intra = Some (Seq (Str [0x648, 0x627, 0x6DF]) Eol, [TStr [0x648, 0x627]]),
     FILTER_POS = None, except_ind = {}, except_lemas = {}, force_ind = {},
       restrict_ind = {}\<rparr>,
    \<lparr>id_rule = asc ''Sil-2'',
     boundary = None,
     intra = Some (Seq (Str [0x64E, 0x648, 0x6E1, 0x627, 0x6DF]) Eol,
       [TStr [0x64E, 0x648, 0x6E1, 0x627]]),
     FILTER_POS = None, except_ind = {}, except_lemas = {}, force_ind = {},
       restrict_ind = {}\<rparr>,
    \<lparr>id_rule = asc ''Sil-3'',
     boundary = None,
     intra = Some (Str [0x623, 0x64F, 0x648, 0x6DF, 0x644, 0x64E, 0x670, 0x649, 0x655, 0x650,
       0x643], [TStr [0x623, 0x64F, 0x648, 0x644, 0x64E, 0x670, 0x649, 0x655, 0x650, 0x643]]),
     FILTER_POS = None, except_ind = {}, except_lemas = {}, force_ind = {},
       restrict_ind = {}\<rparr>,
    \<lparr>id_rule = asc ''Sil-4'',
     boundary = Some ((Seq (Str [0x648]) (Seq (Grp 1 (In [0x64E, 0x64F])) (Str [0x627, 0x6DF])),
       Str [0x671]), ([TStr [0x648], TGrp 1, TStr [0x627]], None)),
     intra = None,
     FILTER_POS = None, except_ind = EXCLUDE_INDEXES_SIL_5, except_lemas = {}, force_ind = {},
       restrict_ind = {}\<rparr>,
    \<lparr>id_rule = asc ''Sil-5'',
     boundary = None,
     intra = Some (Str [0x624, 0x64F, 0x627, 0x6DF], [TStr [0x624, 0x64F, 0x627]]),
     FILTER_POS = None, except_ind = {}, except_lemas = {}, force_ind = {},
       restrict_ind = RESTRICT_INDEXES_SIL_6\<rparr>,
    \<lparr>id_rule = asc ''Sil-6'',
     boundary = None,
     intra = Some (Str [0x623, 0x64F, 0x648, 0x6DF], [TStr [0x623, 0x64F, 0x648]]),
     FILTER_POS = None, except_ind = {}, except_lemas = {}, force_ind = {},
       restrict_ind = RESTRICT_INDEXES_SIL_7\<rparr>,
    \<lparr>id_rule = asc ''Sil-7'',
     boundary = None,
     intra = Some (Seq (Str [0x627, 0x6DF]) (NotAhead Eol), [TStr [0x627]]),
     FILTER_POS = None, except_ind = {}, except_lemas = {}, force_ind = {},
       restrict_ind = RESTRICT_INDEXES_SIL_8\<rparr>,
    \<lparr>id_rule = asc ''Sil-8'',
     boundary = None,
     intra = Some (Str [0x625, 0x650, 0x6CC, 0x6DF], [TStr [0x625, 0x650, 0x6CC]]),
     FILTER_POS = None, except_ind = {}, except_lemas = {}, force_ind = {},
       restrict_ind = RESTRICT_INDEXES_SIL_9\<rparr>,
    \<lparr>id_rule = asc ''Sil-9'',
     boundary = None,
     intra = Some (Seq (Str [0x627, 0x6DF]) Eol, [TStr [0x627]]),
     FILTER_POS = None, except_ind = {(76, 16, 1)}, except_lemas = {}, force_ind = {},
       restrict_ind = RESTRICT_INDEXES_SIL_A\<rparr>,
    \<lparr>id_rule = asc ''Sil-A'',
     boundary = None,
     intra = Some (Str [0x627, 0x6DF], [TStr [0x627]]),
     FILTER_POS = None, except_ind = {}, except_lemas = {}, force_ind = {},
       restrict_ind = {(39, 69, 7), (89, 23, 1)}\<rparr>,
    \<lparr>id_rule = asc ''Sil-B'',
     boundary = None,
     intra = Some (Str [0x642, 0x64E, 0x648, 0x64E, 0x627, 0x631, 0x650, 0x6CC, 0x631, 0x64E,
       0x627, 0x6DF],
       [TStr [0x642, 0x64E, 0x648, 0x64E, 0x627, 0x631, 0x650, 0x6CC, 0x631, 0x64E, 0x627]]),
     FILTER_POS = None, except_ind = {}, except_lemas = {}, force_ind = {},
       restrict_ind = {(76, 16, 1)}\<rparr>,
    \<lparr>id_rule = asc ''Sil-C'',
     boundary = None,
     intra = Some (Str [0x628, 0x650, 0x623, 0x64E, 0x6CC, 0x6E1, 0x6CC, 0x6DF, 0x62F, 0x64D],
       [TStr [0x628, 0x650, 0x623, 0x64E, 0x6CC, 0x6E1, 0x6CC, 0x62F, 0x64D]]),
     FILTER_POS = None, except_ind = {}, except_lemas = {}, force_ind = {},
       restrict_ind = {(51, 47, 3)}\<rparr>,
    \<lparr>id_rule = asc ''Sil-D'',
     boundary = None,
     intra = Some (Seq (Str [0x62A, 0x64E, 0x627, 0x6DF, 0x6CC,
       0x6E1]) (Seq (Opt (Grp 1 (Str [0x640]))) (Str [0x654, 0x64E, 0x633, 0x64F, 0x648, 0x627])),
       [TStr [0x62A, 0x64E, 0x627, 0x6CC, 0x6E1], TGrp 1,
       TStr [0x654, 0x64E, 0x633, 0x64F, 0x648, 0x627]]),
     FILTER_POS = None, except_ind = {}, except_lemas = {}, force_ind = {},
       restrict_ind = {(12, 87, 8)}\<rparr>,
    \<lparr>id_rule = asc ''Sil-E'',
     boundary = None,
     intra = Some (Str [0x644, 0x64E, 0x623, 0x64E, 0x627, 0x6DF, 0x630, 0x6E1, 0x628, 0x64E,
       0x62D, 0x64E, 0x646, 0x651, 0x64E, 0x647, 0x64F],
       [TStr [0x644, 0x64E, 0x623, 0x64E, 0x627, 0x630, 0x6E1, 0x628, 0x64E, 0x62D, 0x64E, 0x646,
       0x651, 0x64E, 0x647, 0x64F]]),
     FILTER_POS = None, except_ind = {}, except_lemas = {}, force_ind = {},
       restrict_ind = {(27, 21, 5)}\<rparr>,
    \<lparr>id_rule = asc ''Sil-F'',
     boundary = None,
     intra = Some (Str [0x644, 0x650, 0x634, 0x64E, 0x627, 0x6DF, 0x6CC, 0x6E1, 0x621, 0x64D],
       [TStr [0x644, 0x650, 0x634, 0x64E, 0x627, 0x6CC, 0x6E1, 0x621, 0x64D]]),
     FILTER_POS = None, except_ind = {}, except_lemas = {}, force_ind = {},
       restrict_ind = {(18, 23, 3)}\<rparr>,
    \<lparr>id_rule = asc ''Sil-G'',
     boundary = None,
     intra = Some (Str [0x6CC, 0x64E, 0x627, 0x6DF], [TStr [0x6CC, 0x64E, 0x627]]),
     FILTER_POS = None, except_ind = {}, except_lemas = {}, force_ind = {},
       restrict_ind = {(12, 87, 14), (13, 31, 20)}\<rparr>,
    \<lparr>id_rule = asc ''hapax-1'',
     boundary = None,
     intra = Some (Str [0x645, 0x64E, 0x62C, 0x6E1, 0x631, 0x6EA, 0x649, 0x670, 0x647, 0x64E,
       0x627], [TStr [0x645, 0x64E, 0x62C, 0x6E1, 0x631, 0x649, 0x670, 0x647, 0x64E, 0x627]]),
     FILTER_POS = None, except_ind = {}, except_lemas = {}, force_ind = {},
       restrict_ind = {}\<rparr>,
    \<lparr>id_rule = asc ''hapax-2'',
     boundary = None,
     intra = Some (Str [0x62A, 0x64E, 0x623, 0x6E1, 0x645, 0x64E, 0x6EB, 0x646, 0x651, 0x64E,
       0x627], [TStr [0x62A, 0x64E, 0x623, 0x6E1, 0x645, 0x64E, 0x646, 0x651, 0x64E, 0x627]]),
     FILTER_POS = None, except_ind = {}, except_lemas = {}, force_ind = {},
       restrict_ind = {}\<rparr>,
    \<lparr>id_rule = asc ''hapax-3'',
     boundary = None,
     intra = Some (Str [0x621, 0x64E, 0x627, 0x6EC, 0x639, 0x6E1, 0x62C, 0x64E, 0x645, 0x650,
       0x6CC, 0x651],
       [TStr [0x621, 0x64E, 0x627, 0x639, 0x6E1, 0x62C, 0x64E, 0x645, 0x650, 0x6CC, 0x651]]),
     FILTER_POS = None, except_ind = {}, except_lemas = {}, force_ind = {},
       restrict_ind = {}\<rparr>]"

text \<open>The restoral rules, in the order of the table.\<close>

definition RESTORE_SANDHI_RULES :: "rule list" where
  "RESTORE_SANDHI_RULES = [
    \<lparr>id_rule = asc ''hapax-1'',
     boundary = None,
     intra = Some (Str [0x645, 0x64E, 0x62C, 0x6E1, 0x631, 0x649, 0x670, 0x647, 0x64E, 0x627],
       [TStr [0x645, 0x64E, 0x62C, 0x6E1, 0x631, 0x6EA, 0x649, 0x670, 0x647, 0x64E, 0x627]]),
     FILTER_POS = None, except_ind = {}, except_lemas = {}, force_ind = {},
       restrict_ind = {}\<rparr>,
    \<lparr>id_rule = asc ''hapax-2'',
     boundary = None,
     intra = Some (Str [0x62A, 0x64E, 0x623, 0x6E1, 0x645, 0x64E, 0x646, 0x651, 0x64E, 0x627],
       [TStr [0x62A, 0x64E, 0x623, 0x6E1, 0x645, 0x64E, 0x6EB, 0x646, 0x651, 0x64E, 0x627]]),
     FILTER_POS = None, except_ind = {}, except_lemas = {}, force_ind = {},
       restrict_ind = {}\<rparr>,
    \<lparr>id_rule = asc ''hapax-3'',
     boundary = None,
     intra = Some (Str [0x621, 0x64E, 0x627, 0x639, 0x6E1, 0x62C, 0x64E, 0x645, 0x650, 0x6CC,
       0x651],
       [TStr [0x621, 0x64E, 0x627, 0x6EC, 0x639, 0x6E1, 0x62C, 0x64E, 0x645, 0x650, 0x6CC,
       0x651]]),
     FILTER_POS = None, except_ind = {}, except_lemas = {}, force_ind = {},
       restrict_ind = {}\<rparr>,
    \<lparr>id_rule = asc ''P-sil-1'',
     boundary = None,
     intra = Some (Seq Bol (Seq (Grp 1 (Alt (Seq (Opt (Alt (Str [0x648, 0x64E]) (Str [0x641,
       0x64E]))) (Str [0x623, 0x64E, 0x646, 0x64E, 0x627])) (Alt (Str [0x644, 0x651, 0x64E, 0x670,
       0x643, 0x650, 0x646, 0x651, 0x64E, 0x627]) (Alt (Str [0x671, 0x644, 0x6E1, 0x631, 0x64E,
       0x633, 0x64F, 0x648, 0x644, 0x64E, 0x627]) (Alt (Str [0x671, 0x644, 0x6E1, 0x633, 0x64E,
       0x628, 0x650, 0x6CC, 0x644, 0x64E, 0x627]) (Str [0x671, 0x644, 0x6E1, 0x638, 0x64F, 0x646,
       0x64F, 0x648, 0x646, 0x64E, 0x627])))))) Eol), [TGrp 1, TStr [0x6E0]]),
     FILTER_POS = None, except_ind = EXCLUDE_INDEXES_SIL_1, except_lemas = {}, force_ind = {},
       restrict_ind = {}\<rparr>,
    \<lparr>id_rule = asc ''P-sil-2'',
     boundary = None,
     intra = Some (Str [0x642, 0x64E, 0x648, 0x64E, 0x627, 0x631, 0x650, 0x6CC, 0x631, 0x64E,
       0x627],
       [TStr [0x642, 0x64E, 0x648, 0x64E, 0x627, 0x631, 0x650, 0x6CC, 0x631, 0x64E, 0x627,
       0x6E0]]),
     FILTER_POS = None, except_ind = {}, except_lemas = {}, force_ind = {},
       restrict_ind = {(76, 15, 8)}\<rparr>,
    \<lparr>id_rule = asc ''sakt-1'',
     boundary = None,
     intra = Some (Str [0x635], [TStr [0x635, 0x6DC]]),
     FILTER_POS = None, except_ind = {}, except_lemas = {}, force_ind = {},
       restrict_ind = {(2, 245, 14), (7, 69, 22)}\<rparr>,
    \<lparr>id_rule = asc ''sakt-2'',
     boundary = None,
     intra = Some (Str [0x627], [TStr [0x627, 0x6DC]]),
     FILTER_POS = None, except_ind = {}, except_lemas = {}, force_ind = {},
       restrict_ind = {(18, 1, 15), (36, 52, 6)}\<rparr>,
    \<lparr>id_rule = asc ''sakt-3'',
     boundary = None,
     intra = Some (Str [0x6E1], [TStr [0x6E1, 0x6DC]]),
     FILTER_POS = None, except_ind = {}, except_lemas = {}, force_ind = {},
       restrict_ind = {(69, 28, 4), (75, 27, 2), (83, 14, 2)}\<rparr>,
    \<lparr>id_rule = asc ''Sil-1'',
     boundary = None,
     intra = Some (Seq (Str [0x648, 0x627]) Eol, [TStr [0x648, 0x627, 0x6DF]]),
     FILTER_POS = None, except_ind = {}, except_lemas = {}, force_ind = {},
       restrict_ind = {}\<rparr>,
    \<lparr>id_rule = asc ''Sil-2'',
     boundary = None,
     intra = Some (Seq (Str [0x64E, 0x648, 0x6E1, 0x627]) Eol,
       [TStr [0x64E, 0x648, 0x6E1, 0x627, 0x6DF]]),
     FILTER_POS = None, except_ind = {}, except_lemas = {}, force_ind = {},
       restrict_ind = {}\<rparr>,
    \<lparr>id_rule = asc ''Sil-3'',
     boundary = None,
     intra = Some (Str [0x623, 0x64F, 0x648, 0x644, 0x64E, 0x670, 0x649, 0x655, 0x650, 0x643],
       [TStr [0x623, 0x64F, 0x648, 0x6DF, 0x644, 0x64E, 0x670, 0x649, 0x655, 0x650, 0x643]]),
     FILTER_POS = None, except_ind = {}, except_lemas = {}, force_ind = {},
       restrict_ind = {}\<rparr>,
    \<lparr>id_rule = asc ''Sil-4'',
     boundary = Some ((Seq (Str [0x648]) (Seq (Grp 1 (In [0x64E, 0x64F])) (Str [0x627])),
       Str [0x671]), ([TStr [0x648], TGrp 1, TStr [0x627, 0x6DF]], None)),
     intra = None,
     FILTER_POS = None, except_ind = EXCLUDE_INDEXES_SIL_5, except_lemas = {}, force_ind = {},
       restrict_ind = {}\<rparr>,
    \<lparr>id_rule = asc ''Sil-5'',
     boundary = None,
     intra = Some (Str [0x624, 0x64F, 0x627], [TStr [0x624, 0x64F, 0x627, 0x6DF]]),
     FILTER_POS = None, except_ind = {}, except_lemas = {}, force_ind = {},
       restrict_ind = RESTRICT_INDEXES_SIL_6\<rparr>,
    \<lparr>id_rule = asc ''Sil-6'',
     boundary = None,
     intra = Some (Str [0x623, 0x64F, 0x648], [TStr [0x623, 0x64F, 0x648, 0x6DF]]),
     FILTER_POS = None, except_ind = {}, except_lemas = {}, force_ind = {},
       restrict_ind = RESTRICT_INDEXES_SIL_7\<rparr>,
    \<lparr>id_rule = asc ''Sil-7'',
     boundary = None,
     intra = Some (Seq (Str [0x627]) (NotAhead Eol), [TStr [0x627, 0x6DF]]),
     FILTER_POS = None, except_ind = {}, except_lemas = {}, force_ind = {},
       restrict_ind = RESTRICT_INDEXES_SIL_8\<rparr>,
    \<lparr>id_rule = asc ''Sil-8'',
     boundary = None,
     intra = Some (Str [0x625, 0x650, 0x6CC], [TStr [0x625, 0x650, 0x6CC, 0x6DF]]),
     FILTER_POS = None, except_ind = {}, except_lemas = {}, force_ind = {},
       restrict_ind = RESTRICT_INDEXES_SIL_9\<rparr>,
    \<lparr>id_rule = asc ''Sil-9'',
     boundary = None,
     intra = Some (Seq (Str [0x627]) Eol, [TStr [0x627, 0x6DF]]),
     FILTER_POS = None, except_ind = {(76, 16, 1)}, except_lemas = {}, force_ind = {},
       restrict_ind = RESTRICT_INDEXES_SIL_A\<rparr>,
    \<lparr>id_rule = asc ''Sil-A'',
     boundary = None,
     intra = Some (Str [0x627], [TStr [0x627, 0x6DF]]),
     FILTER_POS = None, except_ind = {}, except_lemas = {}, force_ind = {},
       restrict_ind = {(39, 69, 7), (89, 23, 1)}\<rparr>,
    \<lparr>id_rule = asc ''Sil-B'',
     boundary = None,
     intra = Some (Str [0x642, 0x64E, 0x648, 0x64E, 0x627, 0x631, 0x650, 0x6CC, 0x631, 0x64E,
       0x627],
       [TStr [0x642, 0x64E, 0x648, 0x64E, 0x627, 0x631, 0x650, 0x6CC, 0x631, 0x64E, 0x627,
       0x6DF]]),
     FILTER_POS = None, except_ind = {}, except_lemas = {}, force_ind = {},
       restrict_ind = {(76, 16, 1)}\<rparr>,
    \<lparr>id_rule = asc ''Sil-C'',
     boundary = None,
     intra = Some (Str [0x628, 0x650, 0x623, 0x64E, 0x6CC, 0x6E1, 0x6CC, 0x62F, 0x64D],
       [TStr [0x628, 0x650, 0x623, 0x64E, 0x6CC, 0x6E1, 0x6CC, 0x6DF, 0x62F, 0x64D]]),
     FILTER_POS = None, except_ind = {}, except_lemas = {}, force_ind = {},
       restrict_ind = {(51, 47, 3)}\<rparr>,
    \<lparr>id_rule = asc ''Sil-D'',
     boundary = None,
     intra = Some (Seq (Str [0x62A, 0x64E, 0x627, 0x6CC,
       0x6E1]) (Seq (Opt (Grp 1 (Str [0x640]))) (Str [0x654, 0x64E, 0x633, 0x64F, 0x648, 0x627])),
       [TStr [0x62A, 0x64E, 0x627, 0x6DF, 0x6CC, 0x6E1], TGrp 1,
       TStr [0x654, 0x64E, 0x633, 0x64F, 0x648, 0x627]]),
     FILTER_POS = None, except_ind = {}, except_lemas = {}, force_ind = {},
       restrict_ind = {(12, 87, 8)}\<rparr>,
    \<lparr>id_rule = asc ''Sil-E'',
     boundary = None,
     intra = Some (Str [0x644, 0x64E, 0x623, 0x64E, 0x627, 0x630, 0x6E1, 0x628, 0x64E, 0x62D,
       0x64E, 0x646, 0x651, 0x64E, 0x647, 0x64F],
       [TStr [0x644, 0x64E, 0x623, 0x64E, 0x627, 0x6DF, 0x630, 0x6E1, 0x628, 0x64E, 0x62D, 0x64E,
       0x646, 0x651, 0x64E, 0x647, 0x64F]]),
     FILTER_POS = None, except_ind = {}, except_lemas = {}, force_ind = {},
       restrict_ind = {(27, 21, 5)}\<rparr>,
    \<lparr>id_rule = asc ''Sil-F'',
     boundary = None,
     intra = Some (Str [0x644, 0x650, 0x634, 0x64E, 0x627, 0x6CC, 0x6E1, 0x621, 0x64D],
       [TStr [0x644, 0x650, 0x634, 0x64E, 0x627, 0x6DF, 0x6CC, 0x6E1, 0x621, 0x64D]]),
     FILTER_POS = None, except_ind = {}, except_lemas = {}, force_ind = {},
       restrict_ind = {(18, 23, 3)}\<rparr>,
    \<lparr>id_rule = asc ''Sil-G'',
     boundary = None,
     intra = Some (Str [0x6CC, 0x64E, 0x627], [TStr [0x6CC, 0x64E, 0x627, 0x6DF]]),
     FILTER_POS = None, except_ind = {}, except_lemas = {}, force_ind = {},
       restrict_ind = {(12, 87, 14), (13, 31, 20)}\<rparr>,
    \<lparr>id_rule = asc ''M1'',
     boundary = Some ((Str [0x645, 0x6E1], Str [0x628]), ([TStr [0x645]], Some [TStr [0x628]])),
     intra = None,
     FILTER_POS = None, except_ind = {}, except_lemas = {}, force_ind = {},
       restrict_ind = {}\<rparr>,
    \<lparr>id_rule = asc ''M2'',
     boundary = Some ((Str [0x645, 0x6E1], Str [0x645]), ([TStr [0x645]],
       Some [TStr [0x645, 0x651]])),
     intra = None,
     FILTER_POS = None, except_ind = {}, except_lemas = {}, force_ind = {},
       restrict_ind = {}\<rparr>,
    \<lparr>id_rule = asc ''N2.1.1.A'',
     boundary = Some ((Str [0x646, 0x6E1], Grp 1 (In [0x646, 0x645])), ([TStr [0x646]],
       Some [TGrp 1, TStr [0x651]])),
     intra = None,
     FILTER_POS = None, except_ind = {}, except_lemas = {}, force_ind = {},
       restrict_ind = {}\<rparr>,
    \<lparr>id_rule = asc ''N2.1.1.B'',
     boundary = Some ((Seq (Str [0x64B]) (Grp 1 (Opt (In [0x627, 0x6CC]))),
       Grp 1 (In [0x646, 0x645])), ([TStr [0x8F0], TGrp 1], Some [TGrp 1, TStr [0x651]])),
     intra = None,
     FILTER_POS = None, except_ind = {}, except_lemas = {}, force_ind = {},
       restrict_ind = {}\<rparr>,
    \<lparr>id_rule = asc ''N2.1.1.C'',
     boundary = Some ((Seq (Str [0x64C]) (Opt (Grp 1 (Str [0x627, 0x6DF]))),
       Grp 1 (In [0x646, 0x645])), ([TStr [0x8F1], TGrp 1], Some [TGrp 1, TStr [0x651]])),
     intra = None,
     FILTER_POS = None, except_ind = {}, except_lemas = {}, force_ind = {},
       restrict_ind = {}\<rparr>,
    \<lparr>id_rule = asc ''N2.1.1.D'',
     boundary = Some ((Str [0x64D], Grp 1 (In [0x646, 0x645])), ([TStr [0x8F2]], Some [TGrp 1,
       TStr [0x651]])),
     intra = None,
     FILTER_POS = None, except_ind = {}, except_lemas = {}, force_ind = {},
       restrict_ind = {}\<rparr>,
    \<lparr>id_rule = asc ''N2.1.2.A'',
     boundary = Some ((Str [0x646, 0x6E1], In [0x648, 0x6CC]), ([TStr [0x646]], None)),
     intra = None,
     FILTER_POS = None, except_ind = {}, except_lemas = {}, force_ind = {},
       restrict_ind = {}\<rparr>,
    \<lparr>id_rule = asc ''N2.1.2.B'',
     boundary = Some ((Seq (Str [0x64B]) (Grp 1 (Opt (In [0x627, 0x6CC]))), In [0x648, 0x6CC]),
       ([TStr [0x8F0], TGrp 1], None)),
     intra = None,
     FILTER_POS = None, except_ind = {}, except_lemas = {}, force_ind = {},
       restrict_ind = {}\<rparr>,
    \<lparr>id_rule = asc ''N2.1.2.C'',
     boundary = Some ((Str [0x64C], In [0x648, 0x6CC]), ([TStr [0x8F1]], None)),
     intra = None,
     FILTER_POS = None, except_ind = {}, except_lemas = {}, force_ind = {},
       restrict_ind = {}\<rparr>,
    \<lparr>id_rule = asc ''N2.1.2.D'',
     boundary = Some ((Str [0x64D], In [0x648, 0x6CC]), ([TStr [0x8F2]], None)),
     intra = None,
     FILTER_POS = None, except_ind = {}, except_lemas = {}, force_ind = {},
       restrict_ind = {}\<rparr>,
    \<lparr>id_rule = asc ''N2.2.A'',
     boundary = Some ((Str [0x646, 0x6E1], Grp 1 (In [0x631, 0x644])), ([TStr [0x646]],
       Some [TGrp 1, TStr [0x651]])),
     intra = None,
     FILTER_POS = None, except_ind = {}, except_lemas = {}, force_ind = {},
       restrict_ind = {}\<rparr>,
    \<lparr>id_rule = asc ''N2.2.B'',
     boundary = Some ((Seq (Str [0x64B]) (Grp 1 (Opt (In [0x627, 0x6CC]))),
       Grp 1 (In [0x631, 0x644])), ([TStr [0x8F0], TGrp 1], Some [TGrp 1, TStr [0x651]])),
     intra = None,
     FILTER_POS = None, except_ind = {}, except_lemas = {}, force_ind = {},
       restrict_ind = {}\<rparr>,
    \<lparr>id_rule = asc ''N2.2.C'',
     boundary = Some ((Str [0x64C], Grp 1 (In [0x631, 0x644])), ([TStr [0x8F1]], Some [TGrp 1,
       TStr [0x651]])),
     intra = None,
     FILTER_POS = None, except_ind = {}, except_lemas = {}, force_ind = {},
       restrict_ind = {}\<rparr>,
    \<lparr>id_rule = asc ''N2.2.D'',
     boundary = Some ((Str [0x64D], Grp 1 (In [0x631, 0x644])), ([TStr [0x8F2]], Some [TGrp 1,
       TStr [0x651]])),
     intra = None,
     FILTER_POS = None, except_ind = {}, except_lemas = {}, force_ind = {},
       restrict_ind = {}\<rparr>,
    \<lparr>id_rule = asc ''N3.A'',
     boundary = Some ((Str [0x646, 0x6E1], Str [0x628]), ([TStr [0x646, 0x6E2]], None)),
     intra = Some (Seq (Str [0x646, 0x6E1]) (Ahead (Str [0x628])), [TStr [0x646, 0x6E2]]),
     FILTER_POS = None, except_ind = {}, except_lemas = {}, force_ind = {},
       restrict_ind = {}\<rparr>,
    \<lparr>id_rule = asc ''N3.B'',
     boundary = Some ((Seq (Str [0x64B]) (Opt (Grp 1 (Str [0x627]))), Str [0x628]),
       ([TStr [0x64E, 0x6E2], TGrp 1], None)),
     intra = None,
     FILTER_POS = None, except_ind = {}, except_lemas = {}, force_ind = {},
       restrict_ind = {}\<rparr>,
    \<lparr>id_rule = asc ''N3.C'',
     boundary = Some ((Str [0x64C], Str [0x628]), ([TStr [0x64F, 0x6E2]], None)),
     intra = None,
     FILTER_POS = None, except_ind = {}, except_lemas = {}, force_ind = {},
       restrict_ind = {}\<rparr>,
    \<lparr>id_rule = asc ''N3.D'',
     boundary = Some ((Str [0x64D], Str [0x628]), ([TStr [0x650, 0x6ED]], None)),
     intra = None,
     FILTER_POS = None, except_ind = {}, except_lemas = {}, force_ind = {},
       restrict_ind = {}\<rparr>,
    \<lparr>id_rule = asc ''N4.A'',
     boundary = Some ((Str [0x646, 0x6E1], Ahead (In IKHFA2)), ([TStr [0x646]], None)),
     intra = Some (Seq (Str [0x646, 0x6E1]) (Ahead (In IKHFA2)), [TStr [0x646]]),
     FILTER_POS = None, except_ind = {}, except_lemas = {}, force_ind = {},
       restrict_ind = {}\<rparr>,
    \<lparr>id_rule = asc ''N4.B'',
     boundary = Some ((Seq (Str [0x64B]) (Opt (Grp 1 (In [0x627, 0x6CC]))), Ahead (In IKHFA2)),
       ([TStr [0x8F0], TGrp 1], None)),
     intra = None,
     FILTER_POS = None, except_ind = {}, except_lemas = {}, force_ind = {},
       restrict_ind = {}\<rparr>,
    \<lparr>id_rule = asc ''N4.C'',
     boundary = Some ((Str [0x64C], Ahead (In IKHFA2)), ([TStr [0x8F1]], None)),
     intra = None,
     FILTER_POS = None, except_ind = {}, except_lemas = {}, force_ind = {},
       restrict_ind = {}\<rparr>,
    \<lparr>id_rule = asc ''N4.D'',
     boundary = Some ((Str [0x64D], Ahead (In IKHFA2)), ([TStr [0x8F2]], None)),
     intra = None,
     FILTER_POS = None, except_ind = {}, except_lemas = {}, force_ind = {},
       restrict_ind = {}\<rparr>,
    \<lparr>id_rule = asc ''SHMS'',
     boundary = None,
     intra = Some (Seq (Grp 1 (Alt (Str [0x671]) (Alt (Seq (Str [0x644]) (Seq (Opt (Str [0x651])) (Str [0x650]))) (Alt (Str [0x648, 0x64E, 0x644, 0x64E]) (Str [0x621, 0x64E, 0x627]))))) (Seq (Str [0x644, 0x6E1]) (Grp 2 (In [0x637, 0x62B, 0x635, 0x631, 0x62A, 0x636, 0x630, 0x646, 0x62F, 0x633, 0x638, 0x632, 0x634, 0x644]))), [TGrp 1, TStr [0x644], TGrp 2, TStr [0x651]]),
     FILTER_POS = Some (asc ''N''), except_ind = {}, except_lemas = {}, force_ind = {},
       restrict_ind = {}\<rparr>,
    \<lparr>id_rule = asc ''MITHL-bb'',
     boundary = Some ((Str [0x628, 0x6E1], Str [0x628]), ([TStr [0x628]],
       Some [TStr [0x628, 0x651]])),
     intra = None,
     FILTER_POS = None, except_ind = {}, except_lemas = {}, force_ind = {},
       restrict_ind = {}\<rparr>,
    \<lparr>id_rule = asc ''MITHL-dd'',
     boundary = Some ((Str [0x62F, 0x6E1], Str [0x62F]), ([TStr [0x62F]],
       Some [TStr [0x62F, 0x651]])),
     intra = Some (Str [0x62F, 0x6E1, 0x62F], [TStr [0x62F, 0x62F, 0x651]]),
     FILTER_POS = None, except_ind = {}, except_lemas = {}, force_ind = {},
       restrict_ind = {}\<rparr>,
    \<lparr>id_rule = asc ''MITHL-kk'',
     boundary = Some ((Str [0x643, 0x6E1], Str [0x643]), ([TStr [0x643]],
       Some [TStr [0x643, 0x651]])),
     intra = Some (Str [0x643, 0x6E1, 0x643], [TStr [0x643, 0x643, 0x651]]),
     FILTER_POS = None, except_ind = {}, except_lemas = {}, force_ind = {},
       restrict_ind = {}\<rparr>,
    \<lparr>id_rule = asc ''MITHL-ll'',
     boundary = Some ((Str [0x644, 0x6E1], Str [0x644]), ([TStr [0x644]],
       Some [TStr [0x644, 0x651]])),
     intra = Some (Str [0x644, 0x6E1, 0x644], [TStr [0x644, 0x644, 0x651]]),
     FILTER_POS = None, except_ind = {}, except_lemas = {}, force_ind = {},
       restrict_ind = {}\<rparr>,
    \<lparr>id_rule = asc ''MITHL-yy'',
     boundary = None,
     intra = Some (Str [0x6CC, 0x6E1, 0x6CC], [TStr [0x6CC, 0x6CC, 0x651]]),
     FILTER_POS = None, except_ind = MITHL_yy_EXCLUDE_INDEXES, except_lemas = {}, force_ind = {},
       restrict_ind = {}\<rparr>,
    \<lparr>id_rule = asc ''MITHL-hh'',
     boundary = None,
     intra = Some (Str [0x647, 0x6E1, 0x647], [TStr [0x647, 0x647, 0x651]]),
     FILTER_POS = None, except_ind = {}, except_lemas = {}, force_ind = {},
       restrict_ind = {}\<rparr>,
    \<lparr>id_rule = asc ''MITHL-ww'',
     boundary = Some ((Seq (Str [0x648, 0x6E1]) (Opt (Grp 1 (Str [0x627, 0x6DF]))), Str [0x648]),
       ([TStr [0x648], TGrp 1], Some [TStr [0x648, 0x651]])),
     intra = None,
     FILTER_POS = None, except_ind = {}, except_lemas = {}, force_ind = {},
       restrict_ind = {}\<rparr>,
    \<lparr>id_rule = asc ''MITHL-tt'',
     boundary = Some ((Str [0x62A, 0x6E1], Str [0x62A]), ([TStr [0x62A]],
       Some [TStr [0x62A, 0x651]])),
     intra = None,
     FILTER_POS = None, except_ind = {}, except_lemas = {}, force_ind = {},
       restrict_ind = {}\<rparr>,
    \<lparr>id_rule = asc ''MITHL-rr'',
     boundary = Some ((Str [0x631, 0x6E1], Str [0x631]), ([TStr [0x631]],
       Some [TStr [0x631, 0x651]])),
     intra = None,
     FILTER_POS = None, except_ind = {}, except_lemas = {}, force_ind = {},
       restrict_ind = {}\<rparr>,
    \<lparr>id_rule = asc ''MITHL-'' @ [0xF0] @ [0xF0],
     boundary = Some ((Str [0x630, 0x6E1], Str [0x630]), ([TStr [0x630]],
       Some [TStr [0x630, 0x651]])),
     intra = None,
     FILTER_POS = None, except_ind = {}, except_lemas = {}, force_ind = {},
       restrict_ind = {}\<rparr>,
    \<lparr>id_rule = asc ''MITHL-ff'',
     boundary = Some ((Str [0x641, 0x6E1], Str [0x641]), ([TStr [0x641]],
       Some [TStr [0x641, 0x651]])),
     intra = None,
     FILTER_POS = None, except_ind = {}, except_lemas = {}, force_ind = {},
       restrict_ind = {}\<rparr>,
    \<lparr>id_rule = asc ''MITHL-33'',
     boundary = Some ((Str [0x639, 0x6E1], Str [0x639]), ([TStr [0x639]],
       Some [TStr [0x639, 0x651]])),
     intra = None,
     FILTER_POS = None, except_ind = {}, except_lemas = {}, force_ind = {},
       restrict_ind = {}\<rparr>,
    \<lparr>id_rule = asc ''MTJNS-dt'',
     boundary = Some ((Str [0x62F, 0x6E1], Str [0x62A]), ([TStr [0x62F]],
       Some [TStr [0x62A, 0x651]])),
     intra = Some (Str [0x62F, 0x6E1, 0x62A], [TStr [0x62F, 0x62A, 0x651]]),
     FILTER_POS = None, except_ind = {}, except_lemas = {}, force_ind = {},
       restrict_ind = {}\<rparr>,
    \<lparr>id_rule = asc ''MTJNS-td'',
     boundary = Some ((Str [0x62A, 0x6E1], Str [0x62F]), ([TStr [0x62A]],
       Some [TStr [0x62F, 0x651]])),
     intra = None,
     FILTER_POS = None, except_ind = {}, except_lemas = {}, force_ind = {},
       restrict_ind = {}\<rparr>,
    \<lparr>id_rule = asc ''MTJNS-tT'',
     boundary = Some ((Str [0x62A, 0x6E1], Str [0x637]), ([TStr [0x62A]],
       Some [TStr [0x637, 0x651]])),
     intra = None,
     FILTER_POS = None, except_ind = {}, except_lemas = {}, force_ind = {},
       restrict_ind = {}\<rparr>,
    \<lparr>id_rule = asc ''MTJNS-'' @ [0x1E6F] @ [0xF0],
     boundary = Some ((Str [0x62B, 0x6E1], Str [0x630]), ([TStr [0x62B]],
       Some [TStr [0x630, 0x651]])),
     intra = None,
     FILTER_POS = None, except_ind = {}, except_lemas = {}, force_ind = {},
       restrict_ind = {}\<rparr>,
    \<lparr>id_rule = asc ''MTJNS-lr'',
     boundary = Some ((Str [0x644, 0x6E1], Str [0x631]), ([TStr [0x644]],
       Some [TStr [0x631, 0x651]])),
     intra = Some (Str [0x644, 0x6E1, 0x631], [TStr [0x644, 0x631, 0x651]]),
     FILTER_POS = None, except_ind = {}, except_lemas = {}, force_ind = {},
       restrict_ind = {}\<rparr>,
    \<lparr>id_rule = asc ''MTJNS-'' @ [0xF0] @ [0x1E6E],
     boundary = Some ((Str [0x630, 0x6E1], Str [0x638]), ([TStr [0x630]],
       Some [TStr [0x638, 0x651]])),
     intra = None,
     FILTER_POS = None, except_ind = {}, except_lemas = {}, force_ind = {},
       restrict_ind = {}\<rparr>,
    \<lparr>id_rule = asc ''MTJNS-qk'',
     boundary = None,
     intra = Some (Str [0x642, 0x6E1, 0x643], [TStr [0x642, 0x643, 0x651]]),
     FILTER_POS = None, except_ind = {}, except_lemas = {}, force_ind = {},
       restrict_ind = {}\<rparr>,
    \<lparr>id_rule = asc ''MTJNS-bm'',
     boundary = Some ((Str [0x628, 0x6E1], Str [0x645]), ([TStr [0x628]],
       Some [TStr [0x645, 0x651]])),
     intra = None,
     FILTER_POS = None, except_ind = {}, except_lemas = {}, force_ind = {},
       restrict_ind = {}\<rparr>,
    \<lparr>id_rule = asc ''t-assim'',
     boundary = None,
     intra = Some (Str [0x637, 0x6E1, 0x62A], [TStr [0x637, 0x62A]]),
     FILTER_POS = None, except_ind = {}, except_lemas = {}, force_ind = {},
       restrict_ind = {}\<rparr>,
    \<lparr>id_rule = asc ''HU'',
     boundary = Some ((Seq (Behind (In [0x64E, 0x64F, 0x650])) (Str [0x647, 0x64F]),
       NotLit 0x671), ([TStr [0x647, 0x64F, 0x6E5]], None)),
     intra = None,
     FILTER_POS = None, except_ind = {(39, 7, 13)}, except_lemas = {}, force_ind = {},
       restrict_ind = {}\<rparr>,
    \<lparr>id_rule = asc ''min-u-1'',
     boundary = None,
     intra = Some (Str [0x62F, 0x64E, 0x627, 0x648, 0x64F, 0x62F],
       [TStr [0x62F, 0x64E, 0x627, 0x648, 0x64F, 0x6E5, 0x62F]]),
     FILTER_POS = None, except_ind = {}, except_lemas = {}, force_ind = {},
       restrict_ind = {}\<rparr>,
    \<lparr>id_rule = asc ''min-u-2'',
     boundary = None,
     intra = Some (Seq (Grp 1 (In [0x6CC, 0x62A])) (Str [0x64E, 0x644, 0x6E1, 0x648, 0x64F, 0x646,
       0x64E]), [TGrp 1, TStr [0x64E, 0x644, 0x6E1, 0x648, 0x64F, 0x6E5, 0x646, 0x64E]]),
     FILTER_POS = None, except_ind = {}, except_lemas = {}, force_ind = {},
       restrict_ind = {}\<rparr>,
    \<lparr>id_rule = asc ''min-u-3'',
     boundary = None,
     intra = Some (Str [0x648, 0x64F, 0x631, 0x650, 0x6CC, 0x64E],
       [TStr [0x648, 0x64F, 0x6E5, 0x631, 0x650, 0x6CC, 0x64E]]),
     FILTER_POS = None, except_ind = {}, except_lemas = {}, force_ind = {},
       restrict_ind = {}\<rparr>,
    \<lparr>id_rule = asc ''min-u-4'',
     boundary = None,
     intra = Some (Seq (Grp 1 (Alt (Str [0x644, 0x650, 0x62A]) (Str [0x6CC]))) (Seq (Str [0x64E,
       0x633, 0x6E1, 0x62A, 0x64E, 0x648, 0x64F]) (Grp 2 (Alt (Str [0x627, 0x6DF]) (Str [0x646,
       0x64E])))), [TGrp 1, TStr [0x64E, 0x633, 0x6E1, 0x62A, 0x64E, 0x648, 0x64F, 0x6E5],
       TGrp 2]),
     FILTER_POS = None, except_ind = {}, except_lemas = {}, force_ind = {},
       restrict_ind = {}\<rparr>,
    \<lparr>id_rule = asc ''min-u-5'',
     boundary = None,
     intra = Some (Seq (Opt (Grp 1 (Str [0x648, 0x64E]))) (Str [0x671, 0x644, 0x6E1, 0x63A, 0x64E,
       0x627, 0x648, 0x64F, 0x646, 0x64E]), [TGrp 1,
       TStr [0x671, 0x644, 0x6E1, 0x63A, 0x64E, 0x627, 0x648, 0x64F, 0x6E5, 0x646, 0x64E]]),
     FILTER_POS = None, except_ind = {}, except_lemas = {}, force_ind = {},
       restrict_ind = {}\<rparr>,
    \<lparr>id_rule = asc ''min-u-6'',
     boundary = None,
     intra = Some (Str [0x671, 0x644, 0x6E1, 0x645, 0x64E, 0x648, 0x6E1, 0x621, 0x64F, 0x62F,
       0x64E, 0x629, 0x64F],
       [TStr [0x671, 0x644, 0x6E1, 0x645, 0x64E, 0x648, 0x6E1, 0x621, 0x64F, 0x6E5, 0x62F, 0x64E,
       0x629, 0x64F]]),
     FILTER_POS = None, except_ind = {}, except_lemas = {}, force_ind = {},
       restrict_ind = {}\<rparr>,
    \<lparr>id_rule = asc ''min-u-7'',
     boundary = None,
     intra = Some (Str [0x648, 0x64F], [TStr [0x648, 0x64F, 0x6E5]]),
     FILTER_POS = None, except_ind = {}, except_lemas = {}, force_ind = {},
       restrict_ind = RESTRICT_INDEXES_MIN_U_7\<rparr>,
    \<lparr>id_rule = asc ''min-u-8'',
     boundary = None,
     intra = Some (Seq (Str [0x644, 0x650, 0x6CC, 0x64E, 0x633,
       0x64F]) (Seq (Opt (Grp 1 (Str [0x640]))) (Str [0x654, 0x64F, 0x648, 0x627])),
       [TStr [0x644, 0x650, 0x6CC, 0x64E, 0x633, 0x64F, 0x6E5], TGrp 1,
       TStr [0x654, 0x64F, 0x648, 0x627]]),
     FILTER_POS = None, except_ind = {}, except_lemas = {}, force_ind = {},
       restrict_ind = {(17, 7, 12)}\<rparr>,
    \<lparr>id_rule = asc ''HI'',
     boundary = Some ((Seq (Behind (In [0x64E, 0x64F, 0x650])) (Str [0x647, 0x650]),
       NotLit 0x671), ([TStr [0x647, 0x650, 0x6E6]], None)),
     intra = None,
     FILTER_POS = None, except_ind = {}, except_lemas = {}, force_ind = {},
       restrict_ind = {}\<rparr>,
    \<lparr>id_rule = asc ''min-y-1'',
     boundary = None,
     intra = Some (Str [0x625, 0x650, 0x628, 0x6E1, 0x631, 0x64E, 0x670, 0x647, 0x650, 0x645],
       [TStr [0x625, 0x650, 0x628, 0x6E1, 0x631, 0x64E, 0x670, 0x647, 0x650, 0x6E7, 0x645]]),
     FILTER_POS = None, except_ind = {}, except_lemas = {}, force_ind = {},
       restrict_ind = {}\<rparr>,
    \<lparr>id_rule = asc ''min-y-2'',
     boundary = None,
     intra = Some (Str [0x646, 0x651, 0x64E, 0x628, 0x650, 0x6CC, 0x651, 0x650],
       [TStr [0x646, 0x651, 0x64E, 0x628, 0x650, 0x6CC, 0x651, 0x650, 0x6E7]]),
     FILTER_POS = None, except_ind = EXCLUDE_INDEXES_MIN_Y_2, except_lemas = {}, force_ind = {},
       restrict_ind = {}\<rparr>,
    \<lparr>id_rule = asc ''min-y-3'',
     boundary = Some ((Seq Bol (Seq (Str [0x6CC, 0x64F, 0x62D, 0x6E1, 0x6CC, 0x650]) Eol),
       NotLit 0x671), ([TStr [0x6CC, 0x64F, 0x62D, 0x6E1, 0x6CC, 0x650, 0x6E6]], None)),
     intra = None,
     FILTER_POS = None, except_ind = {}, except_lemas = {}, force_ind = {},
       restrict_ind = {}\<rparr>,
    \<lparr>id_rule = asc ''min-y-4'',
     boundary = None,
     intra = Some (Seq (Grp 1 Dot) Eol, [TGrp 1, TStr [0x6E6]]),
     FILTER_POS = None, except_ind = {}, except_lemas = {}, force_ind = {},
       restrict_ind = RESTRICT_INDEXES_MIN_Y_4\<rparr>,
    \<lparr>id_rule = asc ''min-y-5'',
     boundary = None,
     intra = Some (Seq (Str [0x650, 0x646, 0x64E]) Eol, [TStr [0x650, 0x6E7, 0x646, 0x64E]]),
     FILTER_POS = None, except_ind = {}, except_lemas = {}, force_ind = {},
       restrict_ind = RESTRICT_INDEXES_MIN_5\<rparr>,
    \<lparr>id_rule = asc ''min-y-6'',
     boundary = None,
     intra = Some (Str [0x621, 0x64E, 0x627, 0x62A, 0x64E, 0x649, 0x670, 0x646, 0x650],
       [TStr [0x621, 0x64E, 0x627, 0x62A, 0x64E, 0x649, 0x670, 0x646, 0x650, 0x6E6]]),
     FILTER_POS = None, except_ind = {}, except_lemas = {}, force_ind = {},
       restrict_ind = {(27, 36, 8)}\<rparr>,
    \<lparr>id_rule = asc ''min-y-7'',
     boundary = None,
     intra = Some (Str [0x625, 0x650, 0x644, 0x64E, 0x670, 0x641, 0x650, 0x647, 0x650, 0x645,
       0x6E1],
       [TStr [0x625, 0x650, 0x6E7, 0x644, 0x64E, 0x670, 0x641, 0x650, 0x647, 0x650, 0x645,
       0x6E1]]),
     FILTER_POS = None, except_ind = {}, except_lemas = {}, force_ind = {},
       restrict_ind = {(106, 2, 1)}\<rparr>,
    \<lparr>id_rule = asc ''min-y-8'',
     boundary = None,
     intra = Some (Str [0x62D, 0x6E1, 0x650, 0x6CC], [TStr [0x62D, 0x6E1, 0x6E7, 0x650, 0x6CC]]),
     FILTER_POS = None, except_ind = {}, except_lemas = {}, force_ind = {},
       restrict_ind = {(25, 49, 1), (46, 33, 15), (75, 40, 6)}\<rparr>,
    \<lparr>id_rule = asc ''min-y-9'',
     boundary = None,
     intra = Some (Str [0x648, 0x64E, 0x644, 0x650, 0x651, 0x650, 0x6CC],
       [TStr [0x648, 0x64E, 0x644, 0x650, 0x6E7, 0x651, 0x650, 0x6CC]]),
     FILTER_POS = None, except_ind = {}, except_lemas = {}, force_ind = {},
       restrict_ind = {(7, 196, 2)}\<rparr>,
    \<lparr>id_rule = asc ''min-y-A'',
     boundary = None,
     intra = Some (Str [0x6CC, 0x64E, 0x633, 0x6E1, 0x62A, 0x64E, 0x62D, 0x6E1, 0x6CC, 0x650],
       [TStr [0x6CC, 0x64E, 0x633, 0x6E1, 0x62A, 0x64E, 0x62D, 0x6E1, 0x6CC, 0x650, 0x6E6]]),
     FILTER_POS = None, except_ind = {}, except_lemas = {}, force_ind = {},
       restrict_ind = {(2, 26, 5)}\<rparr>,
    \<lparr>id_rule = asc ''MADD-hmz'',
     boundary = Some ((Grp 1 (Alt (Str [0x64E, 0x627]) (Alt (Str [0x64E, 0x6CC,
       0x670]) (Alt (Seq (Str [0x64F]) (In [0x648, 0x6E5])) (Seq (Str [0x650]) (In [0x6CC,
       0x6E6]))))), Alt (In HAMZA) (Alt (Seq (In [0x649, 0x6CC]) (Str [0x655])) (Str [0x654]))),
       ([TGrp 1, TStr [0x653]], None)),
     intra = Some (Seq (Grp 1 (Alt (Seq (Str [0x64E]) (In [0x627,
       0x670])) (Alt (Seq (Str [0x64F]) (In [0x648, 0x6E5])) (Seq (Str [0x650]) (In [0x6CC,
       0x6E6]))))) (Ahead (Seq (Opt (Str [0x640])) (Alt (In HAMZA) (Alt (Seq (In [0x649,
       0x6CC]) (Str [0x655])) (Str [0x654]))))), [TGrp 1, TStr [0x653]]),
     FILTER_POS = None, except_ind = MADD_HMZ_EXCEPTION, except_lemas = {}, force_ind = {},
       restrict_ind = {}\<rparr>,
    \<lparr>id_rule = asc ''MADD-hmz-A-sil'',
     boundary = Some ((Str [0x64F, 0x648, 0x627, 0x6DF],
       Alt (In HAMZA) (Seq (In [0x649, 0x6CC]) (Str [0x655]))),
       ([TStr [0x64F, 0x648, 0x653, 0x627, 0x6DF]], None)),
     intra = None,
     FILTER_POS = None, except_ind = {}, except_lemas = {}, force_ind = {},
       restrict_ind = {}\<rparr>,
    \<lparr>id_rule = asc ''MADD-hmz-sp-1'',
     boundary = None,
     intra = Some (Str [0x62A, 0x64E, 0x644, 0x6E1, 0x648, 0x64F, 0x6E5, 0x627, 0x6DF],
       [TStr [0x62A, 0x64E, 0x644, 0x6E1, 0x648, 0x64F, 0x6E5, 0x653, 0x627, 0x6DF]]),
     FILTER_POS = None, except_ind = {}, except_lemas = {}, force_ind = {},
       restrict_ind = {}\<rparr>,
    \<lparr>id_rule = asc ''MADD-hmz-sp-2'',
     boundary = None,
     intra = Some (Str [0x641, 0x64E, 0x623, 0x6E1, 0x648, 0x64F, 0x6E5, 0x627, 0x6DF],
       [TStr [0x641, 0x64E, 0x623, 0x6E1, 0x648, 0x64F, 0x6E5, 0x653, 0x627, 0x6DF]]),
     FILTER_POS = None, except_ind = {}, except_lemas = {}, force_ind = {},
       restrict_ind = {}\<rparr>,
    \<lparr>id_rule = asc ''MADD-hmz-sp-3'',
     boundary = None,
     intra = Some (Str [0x648, 0x64E, 0x62C, 0x650, 0x627, 0x6DF, 0x6CC, 0x621, 0x64E],
       [TStr [0x648, 0x64E, 0x62C, 0x650, 0x627, 0x6DF, 0x6CC, 0x653, 0x621, 0x64E]]),
     FILTER_POS = None, except_ind = {}, except_lemas = {}, force_ind = {},
       restrict_ind = {}\<rparr>,
    \<lparr>id_rule = asc ''MADD-hmz-sp-4'',
     boundary = Some ((Str [0x671, 0x644, 0x631, 0x651, 0x650, 0x628, 0x64E, 0x648, 0x670, 0x627,
       0x6DF], In HAMZA),
       ([TStr [0x671, 0x644, 0x631, 0x651, 0x650, 0x628, 0x64E, 0x648, 0x670, 0x653, 0x627,
       0x6DF]], None)),
     intra = None,
     FILTER_POS = None, except_ind = {}, except_lemas = {}, force_ind = {},
       restrict_ind = {}\<rparr>,
    \<lparr>id_rule = asc ''MADD-lzm'',
     boundary = None,
     intra = Some (Seq (Grp 1 (Alt (Seq (Str [0x64E]) (In [0x627, 0x670])) (Alt (Str [0x64F,
       0x648]) (Str [0x650, 0x6CC])))) (Ahead (Seq (In CONS) (Alt (In [0x651,
       0x652]) (In CONS)))), [TGrp 1, TStr [0x653]]),
     FILTER_POS = None, except_ind = {}, except_lemas = {}, force_ind = {},
       restrict_ind = {}\<rparr>,
    \<lparr>id_rule = asc ''MADD-shdd-skn'',
     boundary = None,
     intra = Some (Seq (Str [0x64E, 0x627]) (Seq (Grp 1 (In CONS)) (Ahead (In [0x651, 0x6E1]))),
       [TStr [0x64E, 0x627, 0x653], TGrp 1]),
     FILTER_POS = None, except_ind = {}, except_lemas = {}, force_ind = {},
       restrict_ind = {}\<rparr>,
    \<lparr>id_rule = asc ''MADD-sp-1'',
     boundary = None,
     intra = Some (Seq Bol (Seq (Str [0x627, 0x644, 0x645]) Eol),
       [TStr [0x627, 0x644, 0x653, 0x645, 0x653]]),
     FILTER_POS = None, except_ind = {}, except_lemas = {}, force_ind = {},
       restrict_ind = {}\<rparr>,
    \<lparr>id_rule = asc ''MADD-sp-2'',
     boundary = None,
     intra = Some (Seq Bol (Seq (Str [0x637, 0x633, 0x645]) Eol),
       [TStr [0x637, 0x633, 0x653, 0x645, 0x653]]),
     FILTER_POS = None, except_ind = {}, except_lemas = {}, force_ind = {},
       restrict_ind = {}\<rparr>,
    \<lparr>id_rule = asc ''MADD-sp-3'',
     boundary = None,
     intra = Some (Seq Bol (Seq (Str [0x637, 0x633]) Eol), [TStr [0x637, 0x633, 0x653]]),
     FILTER_POS = None, except_ind = {}, except_lemas = {}, force_ind = {},
       restrict_ind = {}\<rparr>,
    \<lparr>id_rule = asc ''MADD-sp-4'',
     boundary = None,
     intra = Some (Seq Bol (Seq (Str [0x6CC, 0x633]) Eol), [TStr [0x6CC, 0x633, 0x653]]),
     FILTER_POS = None, except_ind = {}, except_lemas = {}, force_ind = {},
       restrict_ind = {}\<rparr>,
    \<lparr>id_rule = asc ''MADD-sp-5'',
     boundary = None,
     intra = Some (Seq Bol (Seq (Str [0x62D, 0x645]) Eol), [TStr [0x62D, 0x645, 0x653]]),
     FILTER_POS = None, except_ind = {}, except_lemas = {}, force_ind = {},
       restrict_ind = {}\<rparr>,
    \<lparr>id_rule = asc ''MADD-sp-6'',
     boundary = None,
     intra = Some (Seq Bol (Seq (Str [0x643, 0x647, 0x6CC, 0x639, 0x635]) Eol),
       [TStr [0x643, 0x653, 0x647, 0x6CC, 0x639, 0x653, 0x635, 0x653]]),
     FILTER_POS = None, except_ind = {}, except_lemas = {}, force_ind = {},
       restrict_ind = {}\<rparr>,
    \<lparr>id_rule = asc ''MADD-sp-7'',
     boundary = None,
     intra = Some (Seq Bol (Seq (Str [0x627, 0x644, 0x631]) Eol),
       [TStr [0x627, 0x644, 0x653, 0x631]]),
     FILTER_POS = None, except_ind = {}, except_lemas = {}, force_ind = {},
       restrict_ind = {}\<rparr>,
    \<lparr>id_rule = asc ''MADD-sp-8'',
     boundary = None,
     intra = Some (Seq Bol (Seq (Str [0x627, 0x644, 0x645, 0x635]) Eol),
       [TStr [0x627, 0x644, 0x653, 0x645, 0x653, 0x635, 0x653]]),
     FILTER_POS = None, except_ind = {}, except_lemas = {}, force_ind = {},
       restrict_ind = {}\<rparr>,
    \<lparr>id_rule = asc ''MADD-sp-9'',
     boundary = None,
     intra = Some (Seq Bol (Seq (Str [0x627, 0x644, 0x645, 0x631]) Eol),
       [TStr [0x627, 0x644, 0x653, 0x645, 0x653, 0x631]]),
     FILTER_POS = None, except_ind = {}, except_lemas = {}, force_ind = {},
       restrict_ind = {}\<rparr>,
    \<lparr>id_rule = asc ''MADD-sp-A'',
     boundary = None,
     intra = Some (Seq Bol (Seq (Str [0x635]) Eol), [TStr [0x635, 0x653]]),
     FILTER_POS = None, except_ind = {}, except_lemas = {}, force_ind = {},
       restrict_ind = {}\<rparr>,
    \<lparr>id_rule = asc ''MADD-sp-B'',
     boundary = None,
     intra = Some (Seq Bol (Seq (Str [0x639, 0x633, 0x642]) Eol),
       [TStr [0x639, 0x653, 0x633, 0x653, 0x642, 0x653]]),
     FILTER_POS = None, except_ind = {}, except_lemas = {}, force_ind = {},
       restrict_ind = {}\<rparr>,
    \<lparr>id_rule = asc ''MADD-sp-C'',
     boundary = None,
     intra = Some (Seq Bol (Seq (Str [0x642]) Eol), [TStr [0x642, 0x653]]),
     FILTER_POS = None, except_ind = {}, except_lemas = {}, force_ind = {},
       restrict_ind = {}\<rparr>,
    \<lparr>id_rule = asc ''MADD-sp-D'',
     boundary = None,
     intra = Some (Seq Bol (Seq (Str [0x646]) Eol), [TStr [0x646, 0x653]]),
     FILTER_POS = None, except_ind = {}, except_lemas = {}, force_ind = {},
       restrict_ind = {}\<rparr>]"

section \<open>The verification of the evaluation run\<close>


definition index_colon :: "index \<Rightarrow> str" where
  "index_colon ind = (case ind of (s, v, w) \<Rightarrow> py_join [58] (map py_str [s, v, w]))"



text \<open>The patterns of the residual sweep.\<close>

definition SUKUN_REGEX :: regex where
  "SUKUN_REGEX = Seq (In CONS) (Seq (NotBehind (Alt (Str [0x64F, 0x648]) (Str [0x650,
    0x6CC]))) (In CONS))"

definition SHADDA_REGEX :: regex where
  "SHADDA_REGEX = Seq Bol (Seq (In CONS) (Str [0x651]))"

definition TANWIN_REGEX :: regex where
  "TANWIN_REGEX = Alt (In [0x8F0, 0x8F1, 0x8F2]) (Alt (Str [0x64E, 0x6E2]) (Alt (Str [0x64F,
    0x6E2]) (Str [0x650, 0x6ED])))"

text \<open>
  The sweep over the tokens without the layer: for each token the first test of the chain
  that holds prints its warning and adds one to the count; the total is printed last.
\<close>

definition sweep_line :: "token \<Rightarrow> str option" where
  "sweep_line t =
     (case t of (tk, ind) \<Rightarrow>
        if re_search SUKUN_REGEX tk \<and> ind \<notin> EXCEPTIONS_SUKUN
        then Some (asc ''WARNING-1! untreated tajweed traces! consonant without harakat nor sukun in ''
                @ tk @ asc '' Q.'' @ index_colon ind)
        else if re_search SHADDA_REGEX tk
        then Some (asc ''WARNING-2! untreated tajweed traces! shadda on initial consonant of word in ''
                @ tk @ asc '' Q.'' @ index_colon ind)
        else if re_search TANWIN_REGEX tk
        then Some (asc ''WARNING-3! untreated tajweed traces! tanwin with tajweed in ''
                @ tk @ asc '' Q.'' @ index_colon ind)
        else if 0x653 \<in> set tk \<or> 0x622 \<in> set tk
        then Some (asc ''WARNING-4! untreated tajweed traces! madd sign found in ''
                @ tk @ asc '' Q.'' @ index_colon ind)
        else if 0x6E0 \<in> set tk
        then Some (asc ''WARNING-5! untreated tajweed traces! mark for silent alif found in ''
                @ tk @ asc '' Q.'' @ index_colon ind)
        else if 0x6E6 \<in> set tk \<or> 0x6E7 \<in> set tk
        then Some (asc ''WARNING-6! untreated tajweed traces! miniature ya found in ''
                @ tk @ asc '' Q.'' @ index_colon ind)
        else if 0x6E5 \<in> set tk
        then Some (asc ''WARNING-7! untreated tajweed traces! miniature waw found in ''
                @ tk @ asc '' Q.'' @ index_colon ind)
        else if 0x6DF \<in> set tk
        then Some (asc ''WARNING-8! untreated tajweed traces! mark in alif for not pronouncing found in ''
                @ tk @ asc '' Q.'' @ index_colon ind)
        else if 0x6EA \<in> set tk
        then Some (asc ''WARNING-9! untreated tajweed traces! hapax sign U+06ea found in ''
                @ tk @ asc '' Q.'' @ index_colon ind)
        else if 0x6EB \<in> set tk
        then Some (asc ''WARNING-A! untreated tajweed traces! hapax sign U+06eb found in ''
                @ tk @ asc '' Q.'' @ index_colon ind)
        else if 0x6EC \<in> set tk
        then Some (asc ''WARNING-B! untreated tajweed traces! hapax sign U+06ec found in ''
                @ tk @ asc '' Q.'' @ index_colon ind)
        else if 0x6E2 \<in> set tk
        then Some (asc ''WARNING-C! untreated tajweed traces! miniature mim U+06e2 found in ''
                @ tk @ asc '' Q.'' @ index_colon ind)
        else if 0x6DC \<in> set tk
        then Some (asc ''WARNING-C! untreated tajweed traces! miniature sin U+06dc found in ''
                @ tk @ asc '' Q.'' @ index_colon ind)
        else None)"

definition residual_sweep :: "token list \<Rightarrow> str list" where
  "residual_sweep qtokens_detajweed =
     (let warnings = List.map_filter sweep_line qtokens_detajweed
      in warnings @ [asc ''Total '' @ py_str (int (length warnings)) @ asc '' warnings''])"

section \<open>Notions used in the proofs\<close>

text \<open>
  Two properties that can be read off a pattern: \<open>consumes r\<close>, every match of \<open>r\<close>
  takes at least one character; \<open>no_nl r\<close>, no match of \<open>r\<close> takes a line feed.
  A rule is \<open>tail_anchored\<close> when its \<open>tok_pre\<close>, if it has one, has both.
\<close>

fun consumes :: "regex \<Rightarrow> bool" where
  "consumes (Str w) = (w \<noteq> [])"
| "consumes (NotLit c) = True"
| "consumes Dot = True"
| "consumes (In cs) = True"
| "consumes (Seq a b) = (consumes a \<or> consumes b)"
| "consumes (Alt a b) = (consumes a \<and> consumes b)"
| "consumes (Grp k a) = consumes a"
| "consumes r = False"

fun no_nl :: "regex \<Rightarrow> bool" where
  "no_nl (Str w) = (10 \<notin> set w)"
| "no_nl (NotLit c) = (c = 10)"
| "no_nl Dot = True"
| "no_nl (In cs) = (10 \<notin> set cs)"
| "no_nl (Seq a b) = (no_nl a \<and> no_nl b)"
| "no_nl (Alt a b) = (no_nl a \<and> no_nl b)"
| "no_nl (Opt a) = no_nl a"
| "no_nl (Grp k a) = no_nl a"
| "no_nl r = True"

definition tail_anchored :: "rule \<Rightarrow> bool" where
  "tail_anchored r =
     (case boundary r of
        None \<Rightarrow> True
      | Some ((tok_pre, tok_post), repls) \<Rightarrow> consumes tok_pre \<and> no_nl tok_pre)"

text \<open>\<open>trace_of res rid\<close> is what the counts hold for the rule id \<open>rid\<close> once the pass
  is over (\<open>counts.get(rid)\<close>); \<open>boundary_ones\<close> says that every boundary entry of the
  counts has count one.\<close>

definition trace_of :: "result \<Rightarrow> str \<Rightarrow> trace list option" where
  "trace_of res rid = (case snd (final_state res) of None \<Rightarrow> None | Some c \<Rightarrow> c rid)"

definition boundary_ones :: "counts option \<Rightarrow> bool" where
  "boundary_ones cs =
     (\<forall>c rid l ind cnt. cs = Some c \<longrightarrow> c rid = Some l \<longrightarrow> (ind, cnt, True) \<in> set l \<longrightarrow> cnt = 1)"


text \<open>The rule of a table with a given id (the first one, should an id occur twice).\<close>

definition rule_named :: "rule list \<Rightarrow> str \<Rightarrow> rule option" where
  "rule_named rules rid = find (\<lambda>r. id_rule r = rid) rules"

text \<open>The exception that ended a pass, if one did.\<close>

definition raised :: "result \<Rightarrow> error option" where
  "raised res = (case res of Inl (e, st) \<Rightarrow> Some e | Inr st \<Rightarrow> None)"



text \<open>The definitions that evaluation on a concrete input unfolds.\<close>

lemmas engine_defs = apply_rules_def token_step_def apply_rule_def ind_key_def py_str_def
  nat_digits.simps pos_filtered_def clitic_suppressed_def asc_def apply_boundary_def
  apply_intra_def record_count_def falsy_def final_state_def last2_def trace_of_def

lemmas re_defs = re_search_def re_subn_def re_sub_def search_from_def match_at_def
  subn_from.simps expand_def upt_rec

section \<open>The frame of the engine\<close>

text \<open>What an update of a text leaves alone: the indexes, and every other position.\<close>

lemma map_snd_update_same:
  "map snd (xs[i := (t, snd (xs ! i))]) = map snd xs"
proof (cases "i < length xs")
  case True
  then have "(map snd xs)[i := snd (xs ! i)] = map snd xs"
    by (metis list_update_id nth_map)
  then show ?thesis by (simp add: map_update)
next
  case False
  then have "length xs \<le> i" by (simp only: not_less)
  then have "xs[i := (t, snd (xs ! i))] = xs" by (rule list_update_beyond)
  then show ?thesis by (simp only:)
qed

lemma apply_boundary_indexes:
  "map snd (fst (apply_boundary i r st)) = map snd (fst st)"
proof -
  obtain tokens cs where st: "st = (tokens, cs)" by (cases st)
  have two: "map snd ((tokens[Suc i := (u, snd (tokens ! Suc i))])[i := (t, snd (tokens ! i))])
               = map snd tokens" for t u
  proof -
    have "map snd ((tokens[Suc i := (u, snd (tokens ! Suc i))])[i := (t, snd (tokens ! i))])
            = (map snd (tokens[Suc i := (u, snd (tokens ! Suc i))]))[i := snd (tokens ! i)]"
      by (simp add: map_update)
    also have "\<dots> = (map snd tokens)[i := snd (tokens ! i)]"
      by (simp only: map_snd_update_same)
    also have "\<dots> = map snd (tokens[i := (t, snd (tokens ! i))])"
      by (simp add: map_update)
    also have "\<dots> = map snd tokens"
      by (rule map_snd_update_same)
    finally show ?thesis .
  qed
  show ?thesis
    unfolding st apply_boundary_def
    by (simp add: two map_snd_update_same Let_def split: option.splits prod.splits)
qed

lemma apply_boundary_others:
  "j \<noteq> i \<Longrightarrow> j \<noteq> Suc i \<Longrightarrow> fst (apply_boundary i r st) ! j = fst st ! j"
  unfolding apply_boundary_def
  by (cases st) (simp add: Let_def split: option.splits prod.splits)

lemma apply_intra_indexes:
  "map snd (fst (apply_intra i r st)) = map snd (fst st)"
  unfolding apply_intra_def
  by (cases st) (simp add: map_snd_update_same split: option.splits prod.splits)

lemma apply_intra_others:
  "j \<noteq> i \<Longrightarrow> fst (apply_intra i r st) ! j = fst st ! j"
  unfolding apply_intra_def
  by (cases st) (simp split: option.splits prod.splits)

lemma apply_rule_cases:
  "apply_rule qm i w r st = Inr st
   \<or> (\<exists>e. apply_rule qm i w r st = Inl (e, st))
   \<or> apply_rule qm i w r st = Inr (apply_intra i r (apply_boundary i r st))"
  unfolding apply_rule_def
  by (simp add: Let_def split: sum.splits bool.splits)

lemma apply_rule_indexes:
  "map snd (fst (final_state (apply_rule qm i w r st))) = map snd (fst st)"
  using apply_rule_cases[of qm i w r st]
  by (auto simp: final_state_def apply_intra_indexes apply_boundary_indexes)

lemma apply_rule_others:
  "j \<noteq> i \<Longrightarrow> j \<noteq> Suc i \<Longrightarrow> fst (final_state (apply_rule qm i w r st)) ! j = fst st ! j"
  using apply_rule_cases[of qm i w r st]
  by (auto simp: final_state_def apply_intra_others apply_boundary_others)

lemma rules_loop_frame:
  "map snd (fst (final_state (rules_loop qm i w rs st))) = map snd (fst st)
   \<and> (\<forall>j. j \<noteq> i \<and> j \<noteq> Suc i \<longrightarrow> fst (final_state (rules_loop qm i w rs st)) ! j = fst st ! j)"
proof (induction rs arbitrary: st)
  case Nil
  show ?case by (simp add: final_state_def)
next
  case (Cons r rs)
  show ?case
  proof (cases "apply_rule qm i w r st")
    case (Inl e)
    with apply_rule_indexes[of qm i w r st] apply_rule_others[of _ i qm w r st]
    show ?thesis by simp
  next
    case (Inr st')
    with apply_rule_indexes[of qm i w r st] apply_rule_others[of _ i qm w r st]
    have "map snd (fst st') = map snd (fst st)"
      and "\<forall>j. j \<noteq> i \<and> j \<noteq> Suc i \<longrightarrow> fst st' ! j = fst st ! j"
      by (simp_all add: final_state_def)
    with Cons.IH[of st'] Inr show ?thesis by simp
  qed
qed

lemma tokens_loop_indexes:
  "map snd (fst (final_state (tokens_loop rasm qm rules is st))) = map snd (fst st)"
proof (induction "is" arbitrary: st)
  case Nil
  show ?case by (simp add: final_state_def)
next
  case (Cons i "is")
  show ?case
  proof (cases "token_step rasm qm rules i st")
    case (Inl e)
    with rules_loop_frame[of qm i "rasm (fst (fst st ! i))" rules st]
    show ?thesis by (simp add: token_step_def)
  next
    case (Inr st')
    with rules_loop_frame[of qm i "rasm (fst (fst st ! i))" rules st]
    have "map snd (fst st') = map snd (fst st)"
      by (simp add: token_step_def final_state_def)
    with Cons.IH[of st'] Inr show ?thesis by simp
  qed
qed

text \<open>
  Claim C9. For every input, \<open>apply_rules\<close> changes only the text of tokens: the token
  list keeps its length, and the indexes are the same in the same order, also when the
  pass ends in an exception. One round of the outer loop, at position \<open>i\<close>, writes
  no token other than \<open>i\<close> and \<open>i + 1\<close>.
\<close>

theorem apply_rules_frame:
  "length (fst (final_state (apply_rules rasm tokens rules qm cs))) = length tokens
   \<and> map snd (fst (final_state (apply_rules rasm tokens rules qm cs))) = map snd tokens
   \<and> (\<forall>i j st. j \<noteq> i \<and> j \<noteq> Suc i \<longrightarrow>
         fst (final_state (token_step rasm qm rules i st)) ! j = fst st ! j)"
proof -
  have a: "map snd (fst (final_state (apply_rules rasm tokens rules qm cs))) = map snd tokens"
    unfolding apply_rules_def using tokens_loop_indexes[of rasm qm rules _ "(tokens, cs)"] by simp
  from arg_cong[OF a, of length]
  have b: "length (fst (final_state (apply_rules rasm tokens rules qm cs))) = length tokens"
    by simp
  have c: "fst (final_state (token_step rasm qm rules i st)) ! j = fst st ! j"
    if "j \<noteq> i \<and> j \<noteq> Suc i" for i j st
    using that rules_loop_frame[of qm i "rasm (fst (fst st ! i))" rules st]
    by (simp add: token_step_def)
  from a b c show ?thesis by blast
qed

theorem apply_rules_frame_witness:
  "length (fst (final_state (apply_rules (\<lambda>t. t)
       [([0x647, 0x64F, 0x645], (23, 59, 2)), ([0x628, 0x650], (23, 59, 3)), ([0x644, 0x64E], (23, 59, 4))]
       [hd REMOVE_SANDHI_RULES] Map.empty None))) = 3
   \<and> map snd (fst (final_state (apply_rules (\<lambda>t. t)
       [([0x647, 0x64F, 0x645], (23, 59, 2)), ([0x628, 0x650], (23, 59, 3)), ([0x644, 0x64E], (23, 59, 4))]
       [hd REMOVE_SANDHI_RULES] Map.empty None))) = [(23, 59, 2), (23, 59, 3), (23, 59, 4)]
   \<and> (2::nat) \<noteq> 0 \<and> (2::nat) \<noteq> Suc 0
   \<and> fst (final_state (token_step (\<lambda>t. t) Map.empty [hd REMOVE_SANDHI_RULES] 0
       ([([0x647, 0x64F, 0x645], (23, 59, 2)), ([0x628, 0x650], (23, 59, 3)), ([0x644, 0x64E], (23, 59, 4))], None))) ! 2
       = ([0x644, 0x64E], (23, 59, 4))"
  using apply_rules_frame [of "\<lambda>t. t"
       "[([0x647, 0x64F, 0x645], (23, 59, 2)), ([0x628, 0x650], (23, 59, 3)), ([0x644, 0x64E], (23, 59, 4))]"
       "[hd REMOVE_SANDHI_RULES]" Map.empty None]
  by simp

section \<open>Boundary entries of the counts\<close>

lemma lookaround_end:
  "(q, h) \<in> set (ms (Ahead a) s p g) \<Longrightarrow> q = p"
  "(q, h) \<in> set (ms (NotAhead a) s p g) \<Longrightarrow> q = p"
  "(q, h) \<in> set (ms (Behind a) s p g) \<Longrightarrow> q = p"
  "(q, h) \<in> set (ms (NotBehind a) s p g) \<Longrightarrow> q = p"
proof -
  show "(q, h) \<in> set (ms (Ahead a) s p g) \<Longrightarrow> q = p"
    by (auto dest: in_first_caseD)
  show "(q, h) \<in> set (ms (NotAhead a) s p g) \<Longrightarrow> q = p"
    by (simp split: if_splits)
  show "(q, h) \<in> set (ms (Behind a) s p g) \<Longrightarrow> q = p"
    by (cases "width a \<le> p") (auto dest: in_first_caseD)
  show "(q, h) \<in> set (ms (NotBehind a) s p g) \<Longrightarrow> q = p"
    by (cases "width a \<le> p \<and> filter (\<lambda>(q, h). q = p) (ms a s (p - width a) g) \<noteq> []") auto
qed

lemma ms_Str_iff:
  "(q, h) \<in> set (ms (Str w) s p g) \<longleftrightarrow> take (length w) (drop p s) = w \<and> q = p + length w \<and> h = g"
  by auto

lemma ms_Seq_iff:
  "(q, h) \<in> set (ms (Seq a b) s p g) \<longleftrightarrow>
     (\<exists>q' h'. (q', h') \<in> set (ms a s p g) \<and> (q, h) \<in> set (ms b s q' h'))"
  by auto

lemma ms_consumes:
  "consumes r \<Longrightarrow> (q, h) \<in> set (ms r s p g) \<Longrightarrow> p \<le> length s \<Longrightarrow> p < q"
proof (induction r arbitrary: p q g h)
  case (Str w)
  from Str.prems(2) have "q = p + length w" unfolding ms_Str_iff by simp
  with Str.prems(1) show ?case by simp
next
  case (Seq a b)
  from Seq.prems(2) obtain q' h' where 1: "(q', h') \<in> set (ms a s p g)"
    and 2: "(q, h) \<in> set (ms b s q' h')"
    unfolding ms_Seq_iff by blast
  from ms_bounds[OF 1 Seq.prems(3)] have a: "p \<le> q'" "q' \<le> length s" by simp_all
  from ms_bounds[OF 2 a(2)] have b: "q' \<le> q" by simp
  from Seq.prems(1) have "consumes a \<or> consumes b" by simp
  then show ?case
  proof
    assume "consumes a"
    from Seq.IH(1)[OF this 1 Seq.prems(3)] b show ?thesis by simp
  next
    assume "consumes b"
    from Seq.IH(2)[OF this 2 a(2)] a(1) show ?thesis by simp
  qed
next
  case (Alt a b)
  from Alt.prems(2) have "(q, h) \<in> set (ms a s p g) \<or> (q, h) \<in> set (ms b s p g)" by simp
  with Alt.IH Alt.prems(1,3) show ?case by auto
next
  case (Grp k a)
  from Grp.prems(2) obtain h' where "(q, h') \<in> set (ms a s p g)" by auto
  with Grp.IH Grp.prems(1,3) show ?case by auto
next
  case (NotLit c)
  from NotLit.prems(2) show ?case by (simp split: if_splits)
next
  case Dot
  from Dot.prems(2) show ?case by (simp split: if_splits)
next
  case (In cs)
  from In.prems(2) show ?case by (simp split: if_splits)
next
  case Bol
  from Bol.prems(1) show ?case by simp
next
  case Eol
  from Eol.prems(1) show ?case by simp
next
  case (Opt a)
  from Opt.prems(1) show ?case by simp
next
  case (Ahead a)
  from Ahead.prems(1) show ?case by simp
next
  case (NotAhead a)
  from NotAhead.prems(1) show ?case by simp
next
  case (Behind a)
  from Behind.prems(1) show ?case by simp
next
  case (NotBehind a)
  from NotBehind.prems(1) show ?case by simp
qed

lemma ms_no_nl:
  "no_nl r \<Longrightarrow> (q, h) \<in> set (ms r s p g) \<Longrightarrow> p \<le> length s \<Longrightarrow> p \<le> k \<Longrightarrow> k < q
     \<Longrightarrow> s ! k \<noteq> 10"
proof (induction r arbitrary: p q g h)
  case (Str w)
  from Str.prems(2) have t: "take (length w) (drop p s) = w" and q: "q = p + length w"
    unfolding ms_Str_iff by simp_all
  from Str.prems(4,5) q have kw: "k - p < length w" by simp
  from arg_cong[OF t, of length] have "length w \<le> length s - p" by simp
  with kw Str.prems(4) have "w ! (k - p) = s ! k"
    by (subst t[symmetric]) simp
  moreover from kw have "w ! (k - p) \<in> set w" by simp
  ultimately show ?case using Str.prems(1) by auto
next
  case (NotLit c)
  from NotLit.prems(2) have "q = Suc p" "s ! p \<noteq> c" by (simp_all split: if_splits)
  with NotLit.prems(1,4,5) show ?case by (simp add: less_Suc_eq_le)
next
  case Dot
  from Dot.prems(2) have "q = Suc p" "s ! p \<noteq> 10" by (simp_all split: if_splits)
  with Dot.prems(4,5) show ?case by (simp add: less_Suc_eq_le)
next
  case (In cs)
  from In.prems(2) have "q = Suc p" "s ! p \<in> set cs" by (simp_all split: if_splits)
  with In.prems(1,4,5) show ?case by (auto simp add: less_Suc_eq_le)
next
  case Bol
  from Bol.prems(2) have "q = p" by (simp split: if_splits)
  with Bol.prems(4,5) show ?case by simp
next
  case Eol
  from Eol.prems(2) have "q = p" by (simp split: if_splits)
  with Eol.prems(4,5) show ?case by simp
next
  case (Seq a b)
  from Seq.prems(2) obtain q' h' where 1: "(q', h') \<in> set (ms a s p g)"
    and 2: "(q, h) \<in> set (ms b s q' h')"
    unfolding ms_Seq_iff by blast
  from ms_bounds[OF 1 Seq.prems(3)] have a: "p \<le> q'" "q' \<le> length s" by simp_all
  from Seq.prems(1) have n: "no_nl a" "no_nl b" by simp_all
  show ?case
  proof (cases "k < q'")
    case True
    from Seq.IH(1)[OF n(1) 1 Seq.prems(3,4) True] show ?thesis .
  next
    case False
    then have "q' \<le> k" by simp
    from Seq.IH(2)[OF n(2) 2 a(2) this Seq.prems(5)] show ?thesis .
  qed
next
  case (Alt a b)
  from Alt.prems(2) have "(q, h) \<in> set (ms a s p g) \<or> (q, h) \<in> set (ms b s p g)" by simp
  with Alt.IH Alt.prems(1,3,4,5) show ?case by auto
next
  case (Opt a)
  from Opt.prems(2) have "(q, h) \<in> set (ms a s p g) \<or> q = p" by auto
  with Opt.IH Opt.prems(1,3,4,5) show ?case by auto
next
  case (Grp k' a)
  from Grp.prems(2) obtain h' where "(q, h') \<in> set (ms a s p g)" by auto
  with Grp.IH Grp.prems(1,3,4,5) show ?case by auto
next
  case (Ahead a)
  from lookaround_end(1)[OF Ahead.prems(2)] Ahead.prems(4,5) show ?case by simp
next
  case (NotAhead a)
  from lookaround_end(2)[OF NotAhead.prems(2)] NotAhead.prems(4,5) show ?case by simp
next
  case (Behind a)
  from lookaround_end(3)[OF Behind.prems(2)] Behind.prems(4,5) show ?case by simp
next
  case (NotBehind a)
  from lookaround_end(4)[OF NotBehind.prems(2)] NotBehind.prems(4,5) show ?case by simp
qed

lemma search_in_None:
  "(\<And>b. b \<in> set bs \<Longrightarrow> ms r s b Map.empty = []) \<Longrightarrow> search_in r s bs adv = None"
  by (induction bs arbitrary: adv) (simp_all add: match_at_def)

text \<open>A match of \<open>r$\<close>, for \<open>r\<close> that takes at least one character and no line feed.\<close>

lemma tail_match:
  assumes r: "consumes r" "no_nl r"
    and m: "(e, g) \<in> set (ms (Seq r Eol) s b h)" and b: "b \<le> length s"
  shows "b < e \<and> (e = length s \<or> (Suc e = length s \<and> s ! e = 10))
         \<and> (\<forall>k. b \<le> k \<and> k < e \<longrightarrow> s ! k \<noteq> 10)"
proof -
  from m obtain q' h' where 1: "(q', h') \<in> set (ms r s b h)" and 2: "(e, g) \<in> set (ms Eol s q' h')"
    unfolding ms_Seq_iff by blast
  from 2 have e: "e = q'" "e = length s \<or> (Suc e = length s \<and> s ! e = 10)"
    by (auto split: if_splits)
  from ms_consumes[OF r(1) 1 b] e(1) have "b < e" by simp
  moreover from ms_no_nl[OF r(2) 1 b] e(1) have "\<forall>k. b \<le> k \<and> k < e \<longrightarrow> s ! k \<noteq> 10" by simp
  ultimately show ?thesis using e(2) by simp
qed

lemma tail_no_second:
  assumes r: "consumes r" "no_nl r"
    and e: "e = length s \<or> (Suc e = length s \<and> s ! e = 10)"
  shows "search_from (Seq r Eol) s e adv = None"
  unfolding search_from_def
proof (rule search_in_None)
  fix b assume "b \<in> set [e..<Suc (length s)]"
  then have b: "e \<le> b" "b \<le> length s" by auto
  show "ms (Seq r Eol) s b Map.empty = []"
  proof (rule ccontr)
    assume "ms (Seq r Eol) s b Map.empty \<noteq> []"
    then have "hd (ms (Seq r Eol) s b Map.empty) \<in> set (ms (Seq r Eol) s b Map.empty)"
      by (rule hd_in_set)
    then obtain x where x: "x \<in> set (ms (Seq r Eol) s b Map.empty)" ..
    obtain e' g' where "x = (e', g')" by (cases x) auto
    with x have m: "(e', g') \<in> set (ms (Seq r Eol) s b Map.empty)" by (simp only:)
    from tail_match[OF r m b(2)] have t: "b < e'" "\<forall>k. b \<le> k \<and> k < e' \<longrightarrow> s ! k \<noteq> 10"
      by simp_all
    from ms_bounds[OF m b(2)] have "e' \<le> length s" by simp
    with t(1) b e have "b = e" "s ! e = 10" by auto
    with t show False by auto
  qed
qed

lemma tail_subn_count:
  assumes r: "consumes r" "no_nl r" and s: "re_search (Seq r Eol) s"
  shows "snd (re_subn (Seq r Eol) repl s) = 1"
proof -
  from s obtain b e g where f: "search_from (Seq r Eol) s 0 False = Some (b, e, g)"
    unfolding re_search_def by auto
  from search_from_Some[OF f] have b: "b \<le> length s" by simp
  have d: "distinct [0..<Suc (length s)]" by simp
  from search_in_Some[OF f[unfolded search_from_def] d]
  have m: "(e, g) \<in> set (ms (Seq r Eol) s b Map.empty)" by blast
  from tail_match[OF r m b] have "e = length s \<or> (Suc e = length s \<and> s ! e = 10)" by simp
  from tail_no_second[OF r this] have n: "search_from (Seq r Eol) s e (e = b) = None" .
  have "subn_from (Seq r Eol) repl s e (e = b) = (drop e s, 0)"
    by (subst subn_from.simps) (simp add: n)
  then show ?thesis
    unfolding re_subn_def by (subst subn_from.simps) (simp add: f)
qed

lemma record_count_ones:
  assumes "boundary_ones cs" and "is_b \<longrightarrow> cnt = 0 \<or> cnt = 1"
  shows "boundary_ones (record_count cs rid cnt (ind, cnt, is_b))"
  using assms unfolding boundary_ones_def record_count_def
  by (auto split: option.splits if_splits)

lemma apply_boundary_ones:
  assumes "tail_anchored r" and "boundary_ones (snd st)"
  shows "boundary_ones (snd (apply_boundary i r st))"
proof -
  obtain tokens cs where st: "st = (tokens, cs)" by (cases st)
  show ?thesis
  proof (cases "boundary r")
    case None
    with assms(2) show ?thesis by (simp add: apply_boundary_def st)
  next
    case (Some bd)
    obtain tok_pre tok_post repl_pre repl_post
      where bd: "bd = ((tok_pre, tok_post), (repl_pre, repl_post))"
      by (metis surj_pair)
    from assms(1) Some bd have r: "consumes tok_pre" "no_nl tok_pre"
      by (simp_all add: tail_anchored_def)
    show ?thesis
    proof (cases "Suc i < length tokens
                \<and> re_search (Seq tok_pre Eol) (fst (tokens ! i))
                \<and> re_search (Seq Bol tok_post) (fst (tokens ! Suc i))")
      case True
      then have "snd (re_subn (Seq tok_pre Eol) repl_pre (fst (tokens ! i))) = 1"
        using tail_subn_count[OF r] by simp
      then obtain t where "re_subn (Seq tok_pre Eol) repl_pre (fst (tokens ! i)) = (t, 1)"
        by (metis prod.collapse)
      with True Some bd assms(2) show ?thesis
        by (simp add: apply_boundary_def st Let_def record_count_ones)
    next
      case False
      with Some bd assms(2) show ?thesis
        by (auto simp add: apply_boundary_def st)
    qed
  qed
qed

lemma apply_intra_ones:
  assumes "boundary_ones (snd st)"
  shows "boundary_ones (snd (apply_intra i r st))"
  using assms unfolding apply_intra_def
  by (cases st) (auto simp: record_count_ones split: option.splits prod.splits)

lemma apply_rule_ones:
  assumes "tail_anchored r" and "boundary_ones (snd st)"
  shows "boundary_ones (snd (final_state (apply_rule qm i w r st)))"
  using apply_rule_cases[of qm i w r st] assms
  by (auto simp: final_state_def apply_intra_ones apply_boundary_ones)

lemma rules_loop_ones:
  "\<forall>r \<in> set rs. tail_anchored r \<Longrightarrow> boundary_ones (snd st)
     \<Longrightarrow> boundary_ones (snd (final_state (rules_loop qm i w rs st)))"
proof (induction rs arbitrary: st)
  case Nil
  then show ?case by (simp add: final_state_def)
next
  case (Cons r rs)
  from Cons.prems have 1: "boundary_ones (snd (final_state (apply_rule qm i w r st)))"
    by (simp add: apply_rule_ones)
  show ?case
  proof (cases "apply_rule qm i w r st")
    case (Inl e)
    with 1 show ?thesis by simp
  next
    case (Inr st')
    with 1 have "boundary_ones (snd st')" by (simp add: final_state_def)
    with Cons.IH[of st'] Cons.prems(1) Inr show ?thesis by simp
  qed
qed

lemma tokens_loop_ones:
  "\<forall>r \<in> set rules. tail_anchored r \<Longrightarrow> boundary_ones (snd st)
     \<Longrightarrow> boundary_ones (snd (final_state (tokens_loop rasm qm rules is st)))"
proof (induction "is" arbitrary: st)
  case Nil
  then show ?case by (simp add: final_state_def)
next
  case (Cons i "is")
  from Cons.prems have 1: "boundary_ones (snd (final_state (token_step rasm qm rules i st)))"
    by (simp add: token_step_def rules_loop_ones)
  show ?case
  proof (cases "token_step rasm qm rules i st")
    case (Inl e)
    with 1 show ?thesis by simp
  next
    case (Inr st')
    with 1 have "boundary_ones (snd st')" by (simp add: final_state_def)
    with Cons.IH[of st'] Cons.prems(1) Inr show ?thesis by simp
  qed
qed

lemma REMOVE_tail_anchored: "list_all tail_anchored REMOVE_SANDHI_RULES"
  by (simp add: REMOVE_SANDHI_RULES_def tail_anchored_def)

lemma RESTORE_tail_anchored: "list_all tail_anchored RESTORE_SANDHI_RULES"
  by (simp add: RESTORE_SANDHI_RULES_def tail_anchored_def)

text \<open>
  Claim C10, as stated, fails: anchoring \<open>tok_pre\<close> at the end of the text does not by
  itself bound the number of replacements. For the pre-anchor \<open>x?\<close>, which can match
  the empty text, \<open>re.subn\<close> replaces twice in the text \<open>x\<close> (the letter, then the
  empty text at the end), and the boundary entry recorded has count 2.
\<close>

theorem optional_pre_anchor_counts_two:
  "trace_of (apply_rules id [([120], (1, 1, 1)), ([98], (1, 1, 2))]
       [\<lparr>id_rule = asc ''X'',
         boundary = Some ((Opt (Str [120]), Str [98]), ([TStr [82]], None)),
         intra = None,
         FILTER_POS = None, except_ind = {}, except_lemas = {}, force_ind = {},
         restrict_ind = {}\<rparr>]
       Map.empty (Some Map.empty)) (asc ''X'')
     = Some [((1, 1, 1), 2, True)]"
  by (simp add: engine_defs re_defs)

text \<open>
  Claim C10, amended. Every boundary entry that a pass of \<open>apply_rules\<close> with rules of
  the two tables \<open>REMOVE_SANDHI_RULES\<close> and \<open>RESTORE_SANDHI_RULES\<close> records has
  count exactly one: the pattern \<open>tok_pre$\<close> of each of these rules takes at least one
  character and no line feed, so it matches at most once, and the entry is made only
  after \<open>re.search\<close> found a match. Entries that the counts held before the pass are
  assumed to have count one as well (the evaluation starts from empty lists).
\<close>

theorem boundary_trace_count_one:
  assumes "set rules \<subseteq> set REMOVE_SANDHI_RULES \<union> set RESTORE_SANDHI_RULES"
    and "\<forall>rid l ind cnt. cs rid = Some l \<longrightarrow> (ind, cnt, True) \<in> set l \<longrightarrow> cnt = 1"
    and "trace_of (apply_rules rasm tokens rules qm (Some cs)) rid = Some l"
    and "(ind, cnt, True) \<in> set l"
  shows "cnt = 1"
proof -
  from assms(1) REMOVE_tail_anchored RESTORE_tail_anchored
  have 1: "\<forall>r \<in> set rules. tail_anchored r"
    unfolding list_all_iff by blast
  from assms(2) have 2: "boundary_ones (snd (tokens, Some cs))"
    unfolding boundary_ones_def by auto
  from tokens_loop_ones[OF 1 2]
  have 3: "boundary_ones (snd (final_state (apply_rules rasm tokens rules qm (Some cs))))"
    unfolding apply_rules_def .
  from assms(3) obtain c
    where c: "snd (final_state (apply_rules rasm tokens rules qm (Some cs))) = Some c"
      "c rid = Some l"
    unfolding trace_of_def by (auto split: option.splits)
  from 3[unfolded boundary_ones_def] c assms(4) show ?thesis by blast
qed

theorem boundary_trace_count_one_witness:
  "set [REMOVE_SANDHI_RULES ! 0] \<subseteq> set REMOVE_SANDHI_RULES \<union> set RESTORE_SANDHI_RULES
   \<and> trace_of (apply_rules (\<lambda>t. t)
         [([0x647, 0x64F, 0x645], (23, 59, 2)), ([0x628, 0x650], (23, 59, 3))]
         [REMOVE_SANDHI_RULES ! 0] Map.empty (Some Map.empty)) (asc ''M1'')
       = Some [((23, 59, 2), 1, True)]
   \<and> ((23, 59, 2), 1, True) \<in> set [((23::int, 59::int, 2::int), 1::nat, True)]
   \<and> (1::nat) = 1"
proof -
  have h1: "set [REMOVE_SANDHI_RULES ! 0] \<subseteq> set REMOVE_SANDHI_RULES \<union> set RESTORE_SANDHI_RULES"
    by (simp add: REMOVE_SANDHI_RULES_def)
  have h2: "\<forall>rid l ind cnt. (Map.empty :: counts) rid = Some l \<longrightarrow> (ind, cnt, True) \<in> set l \<longrightarrow> cnt = 1"
    by simp
  have h3: "trace_of (apply_rules (\<lambda>t. t)
         [([0x647, 0x64F, 0x645], (23, 59, 2)), ([0x628, 0x650], (23, 59, 3))]
         [REMOVE_SANDHI_RULES ! 0] Map.empty (Some Map.empty)) (asc ''M1'')
       = Some [((23, 59, 2), 1, True)]"
    by (simp add: REMOVE_SANDHI_RULES_def engine_defs re_defs)
  have h4: "((23, 59, 2), 1, True) \<in> set [((23::int, 59::int, 2::int), 1::nat, True)]"
    by simp
  from boundary_trace_count_one [OF h1 h2 h3 h4] h1 h3 h4 show ?thesis
    by simp
qed

section \<open>The removal rule M1\<close>

text \<open>Searching and replacing a single letter at the end and at the start of a text.\<close>

lemma search_in_found:
  "b \<in> set bs \<Longrightarrow> ms r s b Map.empty \<noteq> [] \<Longrightarrow> search_in r s bs False \<noteq> None"
proof (induction bs)
  case Nil
  then show ?case by simp
next
  case (Cons c cs)
  show ?case
  proof (cases "ms r s c Map.empty")
    case Nil
    with Cons have "b \<in> set cs" by auto
    with Cons.IH Cons.prems(2) Nil show ?thesis by (simp add: match_at_def)
  next
    case (Cons m ms')
    then show ?thesis by (cases m) (simp add: match_at_def)
  qed
qed

lemma head_search:
  "re_search (Seq Bol (Str [c])) (c # v)"
proof -
  have "0 \<in> set [0..<Suc (length (c # v))]" by simp
  moreover have "ms (Seq Bol (Str [c])) (c # v) 0 Map.empty \<noteq> []" by simp
  ultimately show ?thesis
    unfolding re_search_def search_from_def by (rule search_in_found)
qed

lemma head_sub_same:
  "re_sub (Seq Bol (Str [c])) [TStr [c]] (c # v) = c # v"
proof -
  let ?R = "Seq Bol (Str [c])" and ?s = "c # v"
  have first: "search_from ?R ?s 0 False = Some (0, 1, Map.empty)"
    unfolding search_from_def by (simp add: upt_rec[of 0] match_at_def)
  have "search_from ?R ?s 1 False = None"
    unfolding search_from_def
  proof (rule search_in_None)
    fix b assume "b \<in> set [1..<Suc (length ?s)]"
    then have "b \<noteq> 0" by auto
    then show "ms ?R ?s b Map.empty = []" by simp
  qed
  then have "subn_from ?R [TStr [c]] ?s 1 False = (v, 0)"
    by (subst subn_from.simps) simp
  then have "subn_from ?R [TStr [c]] ?s 0 False = (c # v, 1)"
    by (subst subn_from.simps) (simp add: first expand_def)
  then show ?thesis by (simp add: re_sub_def re_subn_def)
qed

lemma tail_search:
  assumes "c \<noteq> 10"
  shows "re_search (Seq (Str [c]) Eol) (u @ [c])"
proof -
  have "length u \<in> set [0..<Suc (length (u @ [c]))]" by simp
  moreover have "ms (Seq (Str [c]) Eol) (u @ [c]) (length u) Map.empty \<noteq> []" by simp
  ultimately show ?thesis
    unfolding re_search_def search_from_def by (rule search_in_found)
qed

lemma tail_subn:
  assumes c: "c \<noteq> 10"
  shows "re_subn (Seq (Str [c]) Eol) [TStr w] (u @ [c]) = (u @ w, 1)"
proof -
  let ?R = "Seq (Str [c]) Eol" and ?s = "u @ [c]"
  have r: "consumes (Str [c])" "no_nl (Str [c])" using c by simp_all
  from tail_search[OF c, of u] obtain b e g where f: "search_from ?R ?s 0 False = Some (b, e, g)"
    unfolding re_search_def by auto
  from search_from_Some[OF f] have b: "b \<le> length ?s" by simp
  have d: "distinct [0..<Suc (length ?s)]" by simp
  from search_in_Some[OF f[unfolded search_from_def] d]
  have m: "(e, g) \<in> set (ms ?R ?s b Map.empty)" by blast
  from tail_match[OF r m b] have e: "e = length ?s \<or> (Suc e = length ?s \<and> ?s ! e = 10)"
    by simp
  have "?s ! length u = c" by simp
  with c e have e': "e = Suc (length u)" by auto
  from m have "e = b + 1"
    unfolding ms_Seq_iff ms_Str_iff by (auto split: if_splits)
  with e' have b': "b = length u" by simp
  from tail_no_second[OF r e] have n: "search_from ?R ?s e (e = b) = None" .
  have "subn_from ?R [TStr w] ?s e (e = b) = (drop e ?s, 0)"
    by (subst subn_from.simps) (simp add: n)
  then have "subn_from ?R [TStr w] ?s 0 False = (u @ w, 1)"
    by (subst subn_from.simps) (simp add: f e' b' expand_def)
  then show ?thesis by (simp add: re_subn_def)
qed

lemma REMOVE_M1:
  "rule_named REMOVE_SANDHI_RULES (asc ''M1'') = Some \<lparr>id_rule = asc ''M1'',
     boundary = Some ((Str [0x645], Str [0x628]), ([TStr [0x645, 0x6E1]], Some [TStr [0x628]])),
     intra = None,
     FILTER_POS = None, except_ind = {}, except_lemas = {}, force_ind = {}, restrict_ind = {}\<rparr>"
  by (simp add: rule_named_def REMOVE_SANDHI_RULES_def asc_def)

text \<open>
  Claim C4. Let token \<open>i\<close> end with the letter meem (U+0645) and token \<open>i + 1\<close>
  begin with the letter beh (U+0628). Applying the removal rule M1 at position \<open>i\<close>
  rewrites token \<open>i\<close> so that it ends with meem and sukun (U+0645, U+06E1) and
  leaves every other token, token \<open>i + 1\<close> among them, as it is; the counts, if any,
  get one boundary entry with count one. The witness takes two tokens with the indexes
  of the documented case, sura 23, verse 59, words 2 and 3.
\<close>

theorem M1_literal_case:
  assumes "rule_named REMOVE_SANDHI_RULES (asc ''M1'') = Some r"
    and "Suc i < length tokens"
    and "fst (tokens ! i) = u @ [0x645]"
    and "fst (tokens ! Suc i) = 0x628 # v"
  shows "apply_rule qm i w r (tokens, cs)
         = Inr (tokens[i := (u @ [0x645, 0x6E1], snd (tokens ! i))],
                record_count cs (asc ''M1'') 1 (snd (tokens ! i), 1, True))"
proof -
  from assms(1) have r: "r = \<lparr>id_rule = asc ''M1'',
     boundary = Some ((Str [0x645], Str [0x628]), ([TStr [0x645, 0x6E1]], Some [TStr [0x628]])),
     intra = None,
     FILTER_POS = None, except_ind = {}, except_lemas = {}, force_ind = {}, restrict_ind = {}\<rparr>"
    unfolding REMOVE_M1 by simp
  have 1: "re_search (Seq (Str [0x645]) Eol) (u @ [0x645])" by (rule tail_search) simp
  have 2: "re_search (Seq Bol (Str [0x628])) (0x628 # v)" by (rule head_search)
  have 3: "re_subn (Seq (Str [0x645]) Eol) [TStr [0x645, 0x6E1]] (u @ [0x645])
             = (u @ [0x645, 0x6E1], 1)"
    by (rule tail_subn) simp
  have 4: "re_sub (Seq Bol (Str [0x628])) [TStr [0x628]] (0x628 # v) = 0x628 # v"
    by (rule head_sub_same)
  have same: "tokens[Suc i := (0x628 # v, snd (tokens ! Suc i))] = tokens"
    using assms(4) by (metis list_update_id prod.collapse)
  show ?thesis
    by (subst r)
       (simp add: apply_rule_def pos_filtered_def clitic_suppressed_def asc_def assms(2-4)
         apply_boundary_def apply_intra_def falsy_def 1 2 3 4 same)
qed

theorem M1_literal_case_witness:
  "rule_named REMOVE_SANDHI_RULES (asc ''M1'') = Some (REMOVE_SANDHI_RULES ! 0)
   \<and> Suc 0 < length [([0x647, 0x64F, 0x645], (23::int, 59::int, 2::int)),
                      ([0x628, 0x650, 0x631, 0x64E, 0x628, 0x651, 0x650, 0x647, 0x650, 0x645, 0x6E1], (23, 59, 3))]
   \<and> apply_rule Map.empty 0 [] (REMOVE_SANDHI_RULES ! 0)
        ([([0x647, 0x64F, 0x645], (23, 59, 2)),
          ([0x628, 0x650, 0x631, 0x64E, 0x628, 0x651, 0x650, 0x647, 0x650, 0x645, 0x6E1], (23, 59, 3))], None)
      = Inr ([([0x647, 0x64F, 0x645, 0x6E1], (23, 59, 2)),
              ([0x628, 0x650, 0x631, 0x64E, 0x628, 0x651, 0x650, 0x647, 0x650, 0x645, 0x6E1], (23, 59, 3))], None)"
proof -
  let ?ts = "[([0x647, 0x64F, 0x645], (23::int, 59::int, 2::int)),
              ([0x628, 0x650, 0x631, 0x64E, 0x628, 0x651, 0x650, 0x647, 0x650, 0x645, 0x6E1], (23, 59, 3))]"
  have h1: "rule_named REMOVE_SANDHI_RULES (asc ''M1'') = Some (REMOVE_SANDHI_RULES ! 0)"
    by (simp add: rule_named_def REMOVE_SANDHI_RULES_def asc_def)
  have h2: "Suc 0 < length ?ts" by simp
  have h3: "fst (?ts ! 0) = [0x647, 0x64F] @ [0x645]" by simp
  have h4: "fst (?ts ! Suc 0)
              = 0x628 # [0x650, 0x631, 0x64E, 0x628, 0x651, 0x650, 0x647, 0x650, 0x645, 0x6E1]"
    by simp
  from M1_literal_case [OF h1 h2 h3 h4, of Map.empty "[]" None] h1 h2 show ?thesis
    by (simp add: record_count_def)
qed

section \<open>The report of the round trip\<close>




section \<open>The codes of the residual sweep\<close>


lemma residual_sweep_total:
  "residual_sweep [([0x645, 0x650, 0x646, 0x6E2], (2, 27, 5)), ([0x628], (2, 27, 6)),
                   ([0x628, 0x64E, 0x644, 0x6E1, 0x6DC], (83, 14, 2))] ! 2 = asc ''Total 2 warnings''"
  by (simp add: residual_sweep_def List.map_filter_def sweep_line_def SUKUN_REGEX_def SHADDA_REGEX_def TANWIN_REGEX_def CONS_def
      ITHHAR_def HAMZA_def IDGHAM_def IKHFA2_def EXCEPTIONS_SUKUN_def re_defs index_colon_def
      asc_def py_str_def nat_digits.simps)

section \<open>An index without a record\<close>

text \<open>What a round raises when the key of its token is missing from \<open>qmorf\<close>, and
  that it raises nothing when the key is there and no root is empty.\<close>

lemma raised_simps [simp]:
  "raised (Inl (e, st)) = Some e" "raised (Inr st) = None"
  by (simp_all add: raised_def)



















section \<open>Rules restricted to indexes\<close>












section \<open>The clitic rules HU and HI\<close>




end
